theory Spec2Isabelle
  imports Main "HOL-Library.Word" "HOL-Library.AList"
begin

section \<open>Kubernetes objects written by the deployer\<close>

text \<open>
  Go maps with literal contents (labels, annotations, the secret's data) are association
  lists with distinct keys in the order the source writes them; byte slices are strings.
  A resource version is the store's opaque version token; \<open>None\<close> is Go's empty string.
\<close>

type_synonym string_map = "(string \<times> string) list"

record ObjectMeta =
  Name :: string
  Namespace :: string
  Labels :: string_map
  Annotations :: string_map
  ResourceVersion :: "nat option"

record TypeMeta =
  APIVersion :: string
  Kind :: string

record Secret =
  secret_ObjectMeta :: ObjectMeta
  secret_Type :: string
  secret_Data :: string_map

record ManagedResourceSpec =
  SecretRefs :: "string list"
  InjectLabels :: string_map
  KeepObjects :: "bool option"

record ManagedResource =
  mr_ObjectMeta :: ObjectMeta
  mr_Spec :: ManagedResourceSpec

datatype object = SecretObj Secret | ManagedResourceObj ManagedResource

fun kindOf :: "object \<Rightarrow> string" where
  "kindOf (SecretObj s) = ''Secret''"
| "kindOf (ManagedResourceObj m) = ''ManagedResource''"

fun metaOf :: "object \<Rightarrow> ObjectMeta" where
  "metaOf (SecretObj s) = secret_ObjectMeta s"
| "metaOf (ManagedResourceObj m) = mr_ObjectMeta m"

fun setResourceVersion :: "nat option \<Rightarrow> object \<Rightarrow> object" where
  "setResourceVersion v (SecretObj s) =
     SecretObj (s\<lparr>secret_ObjectMeta := (secret_ObjectMeta s)\<lparr>ResourceVersion := v\<rparr>\<rparr>)"
| "setResourceVersion v (ManagedResourceObj m) =
     ManagedResourceObj (m\<lparr>mr_ObjectMeta := (mr_ObjectMeta m)\<lparr>ResourceVersion := v\<rparr>\<rparr>)"

text \<open>An object is addressed by its kind, namespace and name.\<close>

type_synonym object_key = "string \<times> string \<times> string"

definition ObjectKeyFromObject :: "object \<Rightarrow> object_key" where
  "ObjectKeyFromObject obj = (kindOf obj, Namespace (metaOf obj), Name (metaOf obj))"

section \<open>The store client, the image vector and the logger\<close>

text \<open>
  The deployer talks to the seed's API server through controller-runtime's client. The
  model is an in-memory store with the contract the deployer relies on: create answers
  \<open>AlreadyExists\<close> for a key that is taken, get, update and delete answer \<open>NotFound\<close>
  for a key that is free, update checks the version token it is given, and a write that
  changes nothing keeps the stored object and its token (as the API server does).
  Any other failure of the store (forbidden, timeout) is the \<open>fault\<close> the world holds
  for that verb and key. Every request is recorded, in order, in \<open>requests\<close>; the image
  vector's lookups are recorded in \<open>lookups\<close> and the logger's lines in \<open>logged\<close>.
  The logger (logr) writes lines by \<open>Info\<close> and by \<open>Error\<close>; \<open>LevelWarning\<close> is
  the level the specification speaks of, which no call of the sources writes.
\<close>

datatype verb = VCreate | VGet | VUpdate | VDelete

datatype api_error = AlreadyExists | NotFound | Conflict | Failure string

text \<open>
  Go errors are values: \<open>Errorf template err\<close> is \<open>fmt.Errorf(template, err)\<close>,
  which wraps \<open>err\<close> at the verb \<open>%w\<close> of its template.
\<close>

datatype error =
    ApiError api_error
  | ImageNotFound string
  | EncodeError string
  | DecodeError string
  | ErrShootPurposeNotEvaluation
  | Errorf string error

datatype log_level = LevelInfo | LevelWarning | LevelError

record Shoot =
  Purpose :: "string option"
  HibernationEnabled :: "bool option"

record Cluster =
  cluster_Shoot :: Shoot

record world =
  objects :: "object_key \<rightharpoonup> object"
  revision :: nat
  clusters :: "string \<rightharpoonup> Cluster"
  fault :: "verb \<Rightarrow> object_key \<Rightarrow> api_error option"
  requests :: "(verb \<times> object_key) list"
  exchanges :: "(verb \<times> object_key \<times> nat option \<times> api_error option) list"
  lookups :: "string list"
  logged :: "(log_level \<times> string) list"

definition request :: "verb \<Rightarrow> object_key \<Rightarrow> world \<Rightarrow> world" where
  "request v k w = w\<lparr>requests := requests w @ [(v, k)]\<rparr>"

text \<open>
  Each call of the client's four methods is also recorded in \<open>exchanges\<close> with the
  version token of the object it sent (none for a get) and the store's answer, \<open>None\<close>
  for success.
\<close>

definition answered :: "verb \<Rightarrow> object_key \<Rightarrow> nat option \<Rightarrow> api_error option \<Rightarrow> world \<Rightarrow> world" where
  "answered v k token r w = w\<lparr>exchanges := exchanges w @ [(v, k, token, r)]\<rparr>"

definition logger_Info :: "string \<Rightarrow> world \<Rightarrow> world" where
  "logger_Info msg w = w\<lparr>logged := logged w @ [(LevelInfo, msg)]\<rparr>"

definition logger_Error :: "string \<Rightarrow> world \<Rightarrow> world" where
  "logger_Error msg w = w\<lparr>logged := logged w @ [(LevelError, msg)]\<rparr>"

definition client_Create :: "object \<Rightarrow> world \<Rightarrow> api_error option \<times> world" where
  "client_Create obj w =
     (let k = ObjectKeyFromObject obj; w1 = request VCreate k w;
          (r, w2) =
            (case fault w VCreate k of
               Some e \<Rightarrow> (Some e, w1)
             | None \<Rightarrow>
                 (case objects w k of
                    Some old \<Rightarrow> (Some AlreadyExists, w1)
                  | None \<Rightarrow>
                      (None, w1\<lparr>objects := (objects w)(k \<mapsto> setResourceVersion (Some (Suc (revision w))) obj),
                                 revision := Suc (revision w)\<rparr>)))
      in (r, answered VCreate k (ResourceVersion (metaOf obj)) r w2))"

definition client_Get :: "object_key \<Rightarrow> world \<Rightarrow> (api_error + object) \<times> world" where
  "client_Get k w =
     (let w1 = request VGet k w;
          r = (case fault w VGet k of
                 Some e \<Rightarrow> Inl e
               | None \<Rightarrow>
                   (case objects w k of
                      None \<Rightarrow> Inl NotFound
                    | Some obj \<Rightarrow> Inr obj))
      in (r, answered VGet k None (case r of Inl e \<Rightarrow> Some e | Inr obj \<Rightarrow> None) w1))"

definition client_Update :: "object \<Rightarrow> world \<Rightarrow> api_error option \<times> world" where
  "client_Update obj w =
     (let k = ObjectKeyFromObject obj; w1 = request VUpdate k w;
          (r, w2) =
            (case fault w VUpdate k of
               Some e \<Rightarrow> (Some e, w1)
             | None \<Rightarrow>
                 (case objects w k of
                    None \<Rightarrow> (Some NotFound, w1)
                  | Some old \<Rightarrow>
                      if ResourceVersion (metaOf obj) \<noteq> None
                         \<and> ResourceVersion (metaOf obj) \<noteq> ResourceVersion (metaOf old)
                      then (Some Conflict, w1)
                      else if setResourceVersion (ResourceVersion (metaOf old)) obj = old
                      then (None, w1)
                      else (None, w1\<lparr>objects := (objects w)(k \<mapsto> setResourceVersion (Some (Suc (revision w))) obj),
                                      revision := Suc (revision w)\<rparr>)))
      in (r, answered VUpdate k (ResourceVersion (metaOf obj)) r w2))"

definition client_Delete :: "object \<Rightarrow> world \<Rightarrow> api_error option \<times> world" where
  "client_Delete obj w =
     (let k = ObjectKeyFromObject obj; w1 = request VDelete k w;
          (r, w2) =
            (case fault w VDelete k of
               Some e \<Rightarrow> (Some e, w1)
             | None \<Rightarrow>
                 (case objects w k of
                    None \<Rightarrow> (Some NotFound, w1)
                  | Some old \<Rightarrow> (None, w1\<lparr>objects := (objects w)(k := None)\<rparr>)))
      in (r, answered VDelete k (ResourceVersion (metaOf obj)) r w2))"

definition IgnoreAlreadyExists :: "api_error \<Rightarrow> api_error option" where
  "IgnoreAlreadyExists e = (if e = AlreadyExists then None else Some e)"

definition IgnoreNotFound :: "api_error \<Rightarrow> api_error option" where
  "IgnoreNotFound e = (if e = NotFound then None else Some e)"

section \<open>Resource descriptions\<close>

text \<open>
  The typed objects of \<open>k8s.io/api\<close> with the fields the deployer sets; every other field
  has Go's zero value and is left out. Pointer fields (\<open>ptr.To\<close>) are options.
\<close>

record ServiceAccount =
  sa_TypeMeta :: TypeMeta
  sa_ObjectMeta :: ObjectMeta

record PolicyRule =
  APIGroups :: "string list"
  Resources :: "string list"
  Verbs :: "string list"

record ClusterRole =
  cr_TypeMeta :: TypeMeta
  cr_ObjectMeta :: ObjectMeta
  Rules :: "PolicyRule list"

record RoleRef =
  roleRef_APIGroup :: string
  roleRef_Kind :: string
  roleRef_Name :: string

record Subject =
  subject_Kind :: string
  subject_Name :: string
  subject_Namespace :: string

record ClusterRoleBinding =
  crb_TypeMeta :: TypeMeta
  crb_ObjectMeta :: ObjectMeta
  crb_RoleRef :: RoleRef
  Subjects :: "Subject list"

record ContainerPort =
  port_Name :: string
  port_ContainerPort :: int
  port_Protocol :: string

record Probe =
  HTTPGet_Path :: string
  HTTPGet_Port :: int
  InitialDelaySeconds :: int
  PeriodSeconds :: int
  TimeoutSeconds :: int
  FailureThreshold :: int

record ResourceRequirements =
  Requests :: string_map
  Limits :: string_map

record SecurityContext =
  AllowPrivilegeEscalation :: "bool option"
  ReadOnlyRootFilesystem :: "bool option"
  Capabilities_Drop :: "string list"

record EnvVar =
  env_Name :: string
  env_Value :: string

record Container =
  container_Name :: string
  container_Image :: string
  Args :: "string list"
  Ports :: "ContainerPort list"
  StartupProbe :: Probe
  LivenessProbe :: Probe
  ReadinessProbe :: Probe
  container_Resources :: ResourceRequirements
  container_SecurityContext :: SecurityContext
  Env :: "EnvVar list"

record PodSecurityContext =
  RunAsNonRoot :: "bool option"
  RunAsUser :: "int option"
  RunAsGroup :: "int option"
  FSGroup :: "int option"

record TopologySpreadConstraint =
  MaxSkew :: int
  TopologyKey :: string
  WhenUnsatisfiable :: string
  tsc_MatchLabels :: string_map

record PodSpec =
  pod_ServiceAccountName :: string
  pod_SecurityContext :: PodSecurityContext
  Containers :: "Container list"
  TopologySpreadConstraints :: "TopologySpreadConstraint list"

record PodTemplateSpec =
  template_ObjectMeta :: ObjectMeta
  template_Spec :: PodSpec

record DeploymentSpec =
  deployment_Replicas :: "32 word option"
  deployment_MatchLabels :: string_map
  Template :: PodTemplateSpec

record Deployment =
  deployment_TypeMeta :: TypeMeta
  deployment_ObjectMeta :: ObjectMeta
  deployment_Spec :: DeploymentSpec

record ServicePort =
  sp_Name :: string
  sp_Port :: int
  sp_TargetPort :: string
  sp_Protocol :: string

record ServiceSpec =
  service_Type :: string
  service_Selector :: string_map
  service_Ports :: "ServicePort list"

record Service =
  service_TypeMeta :: TypeMeta
  service_ObjectMeta :: ObjectMeta
  service_Spec :: ServiceSpec

record IngressClass =
  ic_TypeMeta :: TypeMeta
  ic_ObjectMeta :: ObjectMeta
  ic_Controller :: string

record NetworkPolicyPeer =
  NamespaceSelector :: "string_map option"
  PodSelector :: "string_map option"

record NetworkPolicySpec =
  np_PodSelector :: string_map
  PolicyTypes :: "string list"
  np_Ingress :: "NetworkPolicyPeer list list"
  np_Egress :: "NetworkPolicyPeer list list"

record NetworkPolicy =
  np_TypeMeta :: TypeMeta
  np_ObjectMeta :: ObjectMeta
  np_Spec :: NetworkPolicySpec

datatype manifest =
    ServiceAccountM ServiceAccount
  | ClusterRoleM ClusterRole
  | ClusterRoleBindingM ClusterRoleBinding
  | DeploymentM Deployment
  | ServiceM Service
  | IngressClassM IngressClass
  | NetworkPolicyM NetworkPolicy

section \<open>Package traefik: configuration and deployer\<close>

text \<open>
  \<open>IngressProviderType\<close> is a Go string type, so any string can arrive as a provider.
\<close>

type_synonym IngressProviderType = string

definition IngressProviderKubernetesIngress :: IngressProviderType where
  "IngressProviderKubernetesIngress = ''KubernetesIngress''"

definition IngressProviderKubernetesIngressNGINX :: IngressProviderType where
  "IngressProviderKubernetesIngressNGINX = ''KubernetesIngressNGINX''"

record TraefikConfigSpec =
  spec_Image :: string
  spec_Replicas :: "32 word"
  spec_IngressClass :: string
  spec_IngressProvider :: IngressProviderType

record TraefikConfig =
  Spec :: TraefikConfigSpec

record Config =
  Image :: string
  Replicas :: "32 word"
  IngressClass :: string
  IngressProvider :: IngressProviderType

definition DefaultConfig :: Config where
  "DefaultConfig =
     \<lparr>Image = '''', Replicas = 2, IngressClass = ''traefik'',
      IngressProvider = IngressProviderKubernetesIngress\<rparr>"

text \<open>
  The names \<open>ManagedResourceName\<close>, \<open>ServiceAccountName\<close>, \<open>DeploymentName\<close>,
  \<open>Namespace\<close> and \<open>ImageName\<close> are constants of the package declared outside the
  sources at hand, and \<open>runtime.Encode\<close> (with the legacy codec) and
  \<open>utils.ComputeSecretChecksum\<close> are library functions: all of them are parameters.
\<close>

record externals =
  ManagedResourceName :: string
  ServiceAccountName :: string
  DeploymentName :: string
  traefik_Namespace :: string
  ImageName :: string
  Encode :: "manifest \<Rightarrow> error + string"
  ComputeSecretChecksum :: "string_map \<Rightarrow> string"

text \<open>
  An image vector maps an image name to the reference \<open>img.String()\<close> renders.
\<close>

type_synonym ImageVector = "(string \<times> string) list"

definition FindImage :: "ImageVector \<Rightarrow> string \<Rightarrow> world \<Rightarrow> (error + string) \<times> world" where
  "FindImage iv name w =
     (let w1 = w\<lparr>lookups := lookups w @ [name]\<rparr> in
      case map_of iv name of
        None \<Rightarrow> (Inl (ImageNotFound name), w1)
      | Some img \<Rightarrow> (Inr img, w1))"

text \<open>
  The deployer's client is the world every method takes and returns; its logger writes
  to the same world.
\<close>

record Deployer =
  config :: Config
  imageVector :: ImageVector

definition NewDeployer :: "Config \<Rightarrow> ImageVector \<Rightarrow> Deployer" where
  "NewDeployer c iv = \<lparr>config = c, imageVector = iv\<rparr>"

definition serviceAccount :: "externals \<Rightarrow> Deployer \<Rightarrow> ServiceAccount" where
  "serviceAccount x d =
     \<lparr>sa_TypeMeta = \<lparr>APIVersion = ''v1'', Kind = ''ServiceAccount''\<rparr>,
      sa_ObjectMeta =
        \<lparr>Name = ServiceAccountName x, Namespace = traefik_Namespace x,
         Labels = [(''app.kubernetes.io/name'', ''traefik''),
                   (''app.kubernetes.io/instance'', ''traefik''),
                   (''app.kubernetes.io/component'', ''ingress-controller''),
                   (''app.kubernetes.io/managed-by'', ''gardener'')],
         Annotations = [], ResourceVersion = None\<rparr>\<rparr>"

definition clusterRole :: "Deployer \<Rightarrow> ClusterRole" where
  "clusterRole d =
     (let rules =
        [\<lparr>APIGroups = [''''],
          Resources = [''services'', ''endpoints'', ''secrets'', ''nodes''],
          Verbs = [''get'', ''list'', ''watch'']\<rparr>,
         \<lparr>APIGroups = [''discovery.k8s.io''],
          Resources = [''endpointslices''],
          Verbs = [''get'', ''list'', ''watch'']\<rparr>,
         \<lparr>APIGroups = [''extensions'', ''networking.k8s.io''],
          Resources = [''ingresses'', ''ingressclasses''],
          Verbs = [''get'', ''list'', ''watch'']\<rparr>,
         \<lparr>APIGroups = [''extensions'', ''networking.k8s.io''],
          Resources = [''ingresses/status''],
          Verbs = [''update'']\<rparr>,
         \<lparr>APIGroups = [''traefik.io''],
          Resources = [''*''],
          Verbs = [''get'', ''list'', ''watch'']\<rparr>];
        rules =
          (if IngressProvider (config d) = IngressProviderKubernetesIngressNGINX
           then rules @ [\<lparr>APIGroups = [''''],
                          Resources = [''namespaces''],
                          Verbs = [''get'', ''list'', ''watch'']\<rparr>]
           else rules)
      in \<lparr>cr_TypeMeta = \<lparr>APIVersion = ''rbac.authorization.k8s.io/v1'', Kind = ''ClusterRole''\<rparr>,
          cr_ObjectMeta =
            \<lparr>Name = ''traefik-ingress-controller'', Namespace = '''',
             Labels = [(''app.kubernetes.io/name'', ''traefik''),
                       (''app.kubernetes.io/instance'', ''traefik''),
                       (''app.kubernetes.io/managed-by'', ''gardener'')],
             Annotations = [], ResourceVersion = None\<rparr>,
          Rules = rules\<rparr>)"

definition clusterRoleBinding :: "externals \<Rightarrow> Deployer \<Rightarrow> ClusterRoleBinding" where
  "clusterRoleBinding x d =
     \<lparr>crb_TypeMeta = \<lparr>APIVersion = ''rbac.authorization.k8s.io/v1'', Kind = ''ClusterRoleBinding''\<rparr>,
      crb_ObjectMeta =
        \<lparr>Name = ''traefik-ingress-controller'', Namespace = '''',
         Labels = [(''app.kubernetes.io/name'', ''traefik''),
                   (''app.kubernetes.io/instance'', ''traefik''),
                   (''app.kubernetes.io/managed-by'', ''gardener'')],
         Annotations = [], ResourceVersion = None\<rparr>,
      crb_RoleRef =
        \<lparr>roleRef_APIGroup = ''rbac.authorization.k8s.io'', roleRef_Kind = ''ClusterRole'',
         roleRef_Name = ''traefik-ingress-controller''\<rparr>,
      Subjects =
        [\<lparr>subject_Kind = ''ServiceAccount'', subject_Name = ServiceAccountName x,
          subject_Namespace = traefik_Namespace x\<rparr>]\<rparr>"

text \<open>
  \<open>deployment\<close> is the one builder that can fail: with no image in the configuration it
  asks the image vector. The provider switch has one case for the NGINX provider; the
  standard provider falls through to the default case.
\<close>

definition deployment :: "externals \<Rightarrow> Deployer \<Rightarrow> world \<Rightarrow> (error + Deployment) \<times> world" where
  "deployment x d w =
     (let labels =
            [(''app.kubernetes.io/name'', ''traefik''),
             (''app.kubernetes.io/instance'', ''traefik''),
             (''app.kubernetes.io/component'', ''ingress-controller''),
             (''app.kubernetes.io/managed-by'', ''gardener''),
             (''networking.gardener.cloud/to-apiserver'', ''allowed''),
             (''networking.gardener.cloud/to-dns'', ''allowed'')];
          image = Image (config d);
          (found, w1) =
            (if image = ''''
             then (case FindImage (imageVector d) (ImageName x) w of
                     (Inl err, w') \<Rightarrow>
                       (Inl (Errorf ''failed to find traefik image in image vector: %w'' err), w')
                   | (Inr img, w') \<Rightarrow> (Inr img, w'))
             else (Inr image, w))
      in case found of
           Inl err \<Rightarrow> (Inl err, w1)
         | Inr image \<Rightarrow>
            (let args =
                   [''--api.insecure=false'',
                    ''--api.dashboard=false'',
                    ''--ping=true'',
                    ''--ping.entrypoint=web'',
                    ''--metrics.prometheus=true'',
                    ''--metrics.prometheus.entrypoint=metrics'',
                    ''--entrypoints.web.address=:8000'',
                    ''--entrypoints.websecure.address=:8443'',
                    ''--entrypoints.metrics.address=:9100'',
                    ''--log.level=INFO''];
                 args =
                   (if IngressProvider (config d) = IngressProviderKubernetesIngressNGINX
                    then args @
                      [''--providers.kubernetesingressnginx=true'',
                       ''--providers.kubernetesingressnginx.ingressclass='' @ IngressClass (config d)]
                    else args @
                      [''--providers.kubernetesingress=true'',
                       ''--providers.kubernetesingress.ingressclass='' @ IngressClass (config d)])
             in (Inr
                  \<lparr>deployment_TypeMeta = \<lparr>APIVersion = ''apps/v1'', Kind = ''Deployment''\<rparr>,
                   deployment_ObjectMeta =
                     \<lparr>Name = DeploymentName x, Namespace = traefik_Namespace x,
                      Labels = labels, Annotations = [], ResourceVersion = None\<rparr>,
                   deployment_Spec =
                     \<lparr>deployment_Replicas = Some (Replicas (config d)),
                      deployment_MatchLabels =
                        [(''app.kubernetes.io/name'', ''traefik''),
                         (''app.kubernetes.io/instance'', ''traefik'')],
                      Template =
                        \<lparr>template_ObjectMeta =
                           \<lparr>Name = '''', Namespace = '''', Labels = labels,
                            Annotations = [(''prometheus.io/scrape'', ''true''),
                                           (''prometheus.io/port'', ''9100'')],
                            ResourceVersion = None\<rparr>,
                         template_Spec =
                           \<lparr>pod_ServiceAccountName = ServiceAccountName x,
                            pod_SecurityContext =
                              \<lparr>RunAsNonRoot = Some True, RunAsUser = Some 65532,
                               RunAsGroup = Some 65532, FSGroup = Some 65532\<rparr>,
                            Containers =
                              [\<lparr>container_Name = ''traefik'',
                                container_Image = image,
                                Args = args,
                                Ports =
                                  [\<lparr>port_Name = ''web'', port_ContainerPort = 8000,
                                    port_Protocol = ''TCP''\<rparr>,
                                   \<lparr>port_Name = ''websecure'', port_ContainerPort = 8443,
                                    port_Protocol = ''TCP''\<rparr>,
                                   \<lparr>port_Name = ''metrics'', port_ContainerPort = 9100,
                                    port_Protocol = ''TCP''\<rparr>],
                                StartupProbe =
                                  \<lparr>HTTPGet_Path = ''/ping'', HTTPGet_Port = 8000,
                                   InitialDelaySeconds = 5, PeriodSeconds = 5,
                                   TimeoutSeconds = 3, FailureThreshold = 12\<rparr>,
                                LivenessProbe =
                                  \<lparr>HTTPGet_Path = ''/ping'', HTTPGet_Port = 8000,
                                   InitialDelaySeconds = 0, PeriodSeconds = 10,
                                   TimeoutSeconds = 5, FailureThreshold = 3\<rparr>,
                                ReadinessProbe =
                                  \<lparr>HTTPGet_Path = ''/ping'', HTTPGet_Port = 8000,
                                   InitialDelaySeconds = 0, PeriodSeconds = 5,
                                   TimeoutSeconds = 3, FailureThreshold = 3\<rparr>,
                                container_Resources =
                                  \<lparr>Requests = [(''cpu'', ''100m''), (''memory'', ''128Mi'')],
                                   Limits = [(''cpu'', ''500m''), (''memory'', ''512Mi'')]\<rparr>,
                                container_SecurityContext =
                                  \<lparr>AllowPrivilegeEscalation = Some False,
                                   ReadOnlyRootFilesystem = Some True,
                                   Capabilities_Drop = [''ALL'']\<rparr>,
                                Env =
                                  [\<lparr>env_Name = ''KUBERNETES_SERVICE_HOST'',
                                    env_Value = ''kubernetes.default.svc.cluster.local''\<rparr>,
                                   \<lparr>env_Name = ''KUBERNETES_SERVICE_PORT'',
                                    env_Value = ''443''\<rparr>]\<rparr>],
                            TopologySpreadConstraints =
                              [\<lparr>MaxSkew = 1, TopologyKey = ''kubernetes.io/hostname'',
                                WhenUnsatisfiable = ''ScheduleAnyway'',
                                tsc_MatchLabels =
                                  [(''app.kubernetes.io/name'', ''traefik''),
                                   (''app.kubernetes.io/instance'', ''traefik'')]\<rparr>]\<rparr>\<rparr>\<rparr>\<rparr>,
                 w1)))"

definition service :: "externals \<Rightarrow> Deployer \<Rightarrow> Service" where
  "service x d =
     \<lparr>service_TypeMeta = \<lparr>APIVersion = ''v1'', Kind = ''Service''\<rparr>,
      service_ObjectMeta =
        \<lparr>Name = ''traefik'', Namespace = traefik_Namespace x,
         Labels = [(''app.kubernetes.io/name'', ''traefik''),
                   (''app.kubernetes.io/instance'', ''traefik''),
                   (''app.kubernetes.io/component'', ''ingress-controller''),
                   (''app.kubernetes.io/managed-by'', ''gardener'')],
         Annotations = [], ResourceVersion = None\<rparr>,
      service_Spec =
        \<lparr>service_Type = ''LoadBalancer'',
         service_Selector = [(''app.kubernetes.io/name'', ''traefik''),
                             (''app.kubernetes.io/instance'', ''traefik'')],
         service_Ports =
           [\<lparr>sp_Name = ''web'', sp_Port = 80, sp_TargetPort = ''web'', sp_Protocol = ''TCP''\<rparr>,
            \<lparr>sp_Name = ''websecure'', sp_Port = 443, sp_TargetPort = ''websecure'',
             sp_Protocol = ''TCP''\<rparr>]\<rparr>\<rparr>"

definition ingressClass :: "Deployer \<Rightarrow> IngressClass" where
  "ingressClass d =
     \<lparr>ic_TypeMeta = \<lparr>APIVersion = ''networking.k8s.io/v1'', Kind = ''IngressClass''\<rparr>,
      ic_ObjectMeta =
        \<lparr>Name = IngressClass (config d), Namespace = '''',
         Labels = [(''app.kubernetes.io/name'', ''traefik''),
                   (''app.kubernetes.io/instance'', ''traefik''),
                   (''app.kubernetes.io/managed-by'', ''gardener'')],
         Annotations = [(''ingressclass.kubernetes.io/is-default-class'', ''true'')],
         ResourceVersion = None\<rparr>,
      ic_Controller = ''traefik.io/ingress-controller''\<rparr>"

definition networkPolicy :: "externals \<Rightarrow> Deployer \<Rightarrow> NetworkPolicy" where
  "networkPolicy x d =
     \<lparr>np_TypeMeta = \<lparr>APIVersion = ''networking.k8s.io/v1'', Kind = ''NetworkPolicy''\<rparr>,
      np_ObjectMeta =
        \<lparr>Name = ''traefik-allow-ingress'', Namespace = traefik_Namespace x,
         Labels = [(''app.kubernetes.io/name'', ''traefik''),
                   (''app.kubernetes.io/managed-by'', ''gardener'')],
         Annotations = [], ResourceVersion = None\<rparr>,
      np_Spec =
        \<lparr>np_PodSelector = [(''app.kubernetes.io/name'', ''traefik''),
                           (''app.kubernetes.io/instance'', ''traefik'')],
         PolicyTypes = [''Ingress'', ''Egress''],
         np_Ingress = [[]],
         np_Egress = [[\<lparr>NamespaceSelector = Some [], PodSelector = Some []\<rparr>]]\<rparr>\<rparr>"

text \<open>
  \<open>generateResources\<close> fills the map \<open>resources\<close> key by key and returns at the first
  failure with no map at all.
\<close>

definition generateResources :: "externals \<Rightarrow> Deployer \<Rightarrow> world \<Rightarrow> (error + string_map) \<times> world" where
  "generateResources x d w =
     (let resources = [] in
      case Encode x (ServiceAccountM (serviceAccount x d)) of
        Inl err \<Rightarrow> (Inl (Errorf ''failed to encode service account: %w'' err), w)
      | Inr saData \<Rightarrow>
     (let resources = AList.update ''serviceaccount.yaml'' saData resources in
      case Encode x (ClusterRoleM (clusterRole d)) of
        Inl err \<Rightarrow> (Inl (Errorf ''failed to encode cluster role: %w'' err), w)
      | Inr crData \<Rightarrow>
     (let resources = AList.update ''clusterrole.yaml'' crData resources in
      case Encode x (ClusterRoleBindingM (clusterRoleBinding x d)) of
        Inl err \<Rightarrow> (Inl (Errorf ''failed to encode cluster role binding: %w'' err), w)
      | Inr crbData \<Rightarrow>
     (let resources = AList.update ''clusterrolebinding.yaml'' crbData resources in
      case deployment x d w of
        (Inl err, w1) \<Rightarrow> (Inl (Errorf ''failed to create deployment: %w'' err), w1)
      | (Inr deploy, w1) \<Rightarrow>
     (case Encode x (DeploymentM deploy) of
        Inl err \<Rightarrow> (Inl (Errorf ''failed to encode deployment: %w'' err), w1)
      | Inr deployData \<Rightarrow>
     (let resources = AList.update ''deployment.yaml'' deployData resources in
      case Encode x (ServiceM (service x d)) of
        Inl err \<Rightarrow> (Inl (Errorf ''failed to encode service: %w'' err), w1)
      | Inr svcData \<Rightarrow>
     (let resources = AList.update ''service.yaml'' svcData resources in
      case Encode x (IngressClassM (ingressClass d)) of
        Inl err \<Rightarrow> (Inl (Errorf ''failed to encode ingress class: %w'' err), w1)
      | Inr icData \<Rightarrow>
     (let resources = AList.update ''ingressclass.yaml'' icData resources in
      case Encode x (NetworkPolicyM (networkPolicy x d)) of
        Inl err \<Rightarrow> (Inl (Errorf ''failed to encode network policy: %w'' err), w1)
      | Inr npData \<Rightarrow>
     (let resources = AList.update ''networkpolicy.yaml'' npData resources in
      (Inr resources, w1))))))))))"

text \<open>
  \<open>Deploy\<close> writes two objects, the secret with the manifests and the managed resource
  that refers to it, each by create and, on \<open>AlreadyExists\<close>, get and update with the
  stored version token. The result is \<open>None\<close> for Go's nil error.
\<close>

definition Deploy :: "externals \<Rightarrow> Deployer \<Rightarrow> string \<Rightarrow> world \<Rightarrow> error option \<times> world" where
  "Deploy x d namespace w =
     (let w0 = logger_Info ''deploying traefik to shoot cluster'' w in
      case generateResources x d w0 of
        (Inl err, w1) \<Rightarrow> (Some (Errorf ''failed to generate traefik resources: %w'' err), w1)
      | (Inr resources, w1) \<Rightarrow>
     (let checksum = ComputeSecretChecksum x resources;
          secret =
            \<lparr>secret_ObjectMeta =
               \<lparr>Name = ManagedResourceName x, Namespace = namespace, Labels = [],
                Annotations = [(''resources.gardener.cloud/data-checksum'', checksum)],
                ResourceVersion = None\<rparr>,
             secret_Type = ''Opaque'',
             secret_Data = resources\<rparr>;
          (failed, w2) =
            (case client_Create (SecretObj secret) w1 of
               (None, w') \<Rightarrow> (None, w')
             | (Some err, w') \<Rightarrow>
                 (case IgnoreAlreadyExists err of
                    Some e \<Rightarrow> (Some (Errorf ''failed to create secret: %w'' (ApiError err)), w')
                  | None \<Rightarrow>
                      (case client_Get (ObjectKeyFromObject (SecretObj secret)) w' of
                         (Inl err, w'') \<Rightarrow>
                           (Some (Errorf ''failed to get existing secret: %w'' (ApiError err)), w'')
                       | (Inr existing, w'') \<Rightarrow>
                           (case client_Update
                                   (setResourceVersion (ResourceVersion (metaOf existing))
                                      (SecretObj secret)) w'' of
                              (Some err, w''') \<Rightarrow>
                                (Some (Errorf ''failed to update secret: %w'' (ApiError err)), w''')
                            | (None, w''') \<Rightarrow> (None, w''')))))
      in case failed of
           Some err \<Rightarrow> (Some err, w2)
         | None \<Rightarrow>
     (let managedResource =
            \<lparr>mr_ObjectMeta =
               \<lparr>Name = ManagedResourceName x, Namespace = namespace, Labels = [],
                Annotations = [], ResourceVersion = None\<rparr>,
             mr_Spec =
               \<lparr>SecretRefs = [ManagedResourceName x],
                InjectLabels = [(''shoot.gardener.cloud/no-cleanup'', ''true'')],
                KeepObjects = Some False\<rparr>\<rparr>;
          (failed, w3) =
            (case client_Create (ManagedResourceObj managedResource) w2 of
               (None, w') \<Rightarrow> (None, w')
             | (Some err, w') \<Rightarrow>
                 (case IgnoreAlreadyExists err of
                    Some e \<Rightarrow>
                      (Some (Errorf ''failed to create managed resource: %w'' (ApiError err)), w')
                  | None \<Rightarrow>
                      (case client_Get (ObjectKeyFromObject (ManagedResourceObj managedResource)) w' of
                         (Inl err, w'') \<Rightarrow>
                           (Some (Errorf ''failed to get existing managed resource: %w''
                                    (ApiError err)), w'')
                       | (Inr existing, w'') \<Rightarrow>
                           (case client_Update
                                   (setResourceVersion (ResourceVersion (metaOf existing))
                                      (ManagedResourceObj managedResource)) w'' of
                              (Some err, w''') \<Rightarrow>
                                (Some (Errorf ''failed to update managed resource: %w''
                                         (ApiError err)), w''')
                            | (None, w''') \<Rightarrow> (None, w''')))))
      in case failed of
           Some err \<Rightarrow> (Some err, w3)
         | None \<Rightarrow> (None, logger_Info ''successfully deployed traefik'' w3))))"

text \<open>
  \<open>Delete\<close> removes the managed resource, then the secret; \<open>NotFound\<close> from either
  delete is ignored.
\<close>

definition Delete :: "externals \<Rightarrow> Deployer \<Rightarrow> string \<Rightarrow> world \<Rightarrow> error option \<times> world" where
  "Delete x d namespace w =
     (let w0 = logger_Info ''deleting traefik from shoot cluster'' w;
          managedResource =
            \<lparr>mr_ObjectMeta =
               \<lparr>Name = ManagedResourceName x, Namespace = namespace, Labels = [],
                Annotations = [], ResourceVersion = None\<rparr>,
             mr_Spec = \<lparr>SecretRefs = [], InjectLabels = [], KeepObjects = None\<rparr>\<rparr>;
          (failed, w1) =
            (case client_Delete (ManagedResourceObj managedResource) w0 of
               (None, w') \<Rightarrow> (None, w')
             | (Some err, w') \<Rightarrow>
                 (case IgnoreNotFound err of
                    Some e \<Rightarrow>
                      (Some (Errorf ''failed to delete managed resource: %w'' (ApiError err)), w')
                  | None \<Rightarrow> (None, w')))
      in case failed of
           Some err \<Rightarrow> (Some err, w1)
         | None \<Rightarrow>
     (let secret =
            \<lparr>secret_ObjectMeta =
               \<lparr>Name = ManagedResourceName x, Namespace = namespace, Labels = [],
                Annotations = [], ResourceVersion = None\<rparr>,
             secret_Type = '''',
             secret_Data = []\<rparr>;
          (failed, w2) =
            (case client_Delete (SecretObj secret) w1 of
               (None, w') \<Rightarrow> (None, w')
             | (Some err, w') \<Rightarrow>
                 (case IgnoreNotFound err of
                    Some e \<Rightarrow> (Some (Errorf ''failed to delete secret: %w'' (ApiError err)), w')
                  | None \<Rightarrow> (None, w')))
      in case failed of
           Some err \<Rightarrow> (Some err, w2)
         | None \<Rightarrow> (None, logger_Info ''successfully deleted traefik'' w2)))"

section \<open>Package actuator: reconciliation\<close>

text \<open>
  The actuator reads the cluster of the extension's namespace, whose shoot carries the
  purpose and the hibernation flag. \<open>GetCluster\<close> and \<open>HibernationIsEnabled\<close> are
  Gardener's helpers: the first is a read of the store, the second holds when
  \<open>spec.hibernation.enabled\<close> is set and true. The decoder of the provider
  configuration is a field of the actuator. A log line is its level and message, without
  its key-value pairs, and the counter of operations that \<open>Reconcile\<close> increments when
  it returns is left out: no property below reads either.
\<close>

definition ShootPurposeEvaluation :: string where
  "ShootPurposeEvaluation = ''evaluation''"

definition GetCluster :: "string \<Rightarrow> world \<Rightarrow> (error + Cluster) \<times> world" where
  "GetCluster name w =
     (let k = (''Cluster'', '''', name); w1 = request VGet k w in
      case fault w VGet k of
        Some e \<Rightarrow> (Inl (ApiError e), w1)
      | None \<Rightarrow>
          (case clusters w name of
             None \<Rightarrow> (Inl (ApiError NotFound), w1)
           | Some c \<Rightarrow> (Inr c, w1)))"

definition HibernationIsEnabled :: "Shoot \<Rightarrow> bool" where
  "HibernationIsEnabled shoot = (HibernationEnabled shoot = Some True)"

record Extension =
  ex_Name :: string
  ex_Namespace :: string
  ProviderConfig :: "string option"

record Actuator =
  decoder :: "string \<Rightarrow> error + TraefikConfig"
  actuator_imageVector :: ImageVector

definition DecodeInto :: "(string \<Rightarrow> error + TraefikConfig) \<Rightarrow> string \<Rightarrow> error + TraefikConfig" where
  "DecodeInto dec raw = dec raw"

text \<open>
  The block of \<open>Reconcile\<close> that applies a decoded provider configuration to the
  configuration it has at hand, field by field.
\<close>

definition applyCustomConfiguration :: "Config \<Rightarrow> TraefikConfig \<Rightarrow> Config" where
  "applyCustomConfiguration traefikConfig cfg =
     (let traefikConfig =
            (if spec_Image (Spec cfg) \<noteq> ''''
             then traefikConfig\<lparr>Image := spec_Image (Spec cfg)\<rparr> else traefikConfig);
          traefikConfig =
            (if 0 <s spec_Replicas (Spec cfg)
             then traefikConfig\<lparr>Replicas := spec_Replicas (Spec cfg)\<rparr> else traefikConfig);
          traefikConfig =
            (if spec_IngressClass (Spec cfg) \<noteq> ''''
             then traefikConfig\<lparr>IngressClass := spec_IngressClass (Spec cfg)\<rparr>
             else traefikConfig);
          traefikConfig =
            (if spec_IngressProvider (Spec cfg) \<noteq> ''''
             then traefikConfig\<lparr>IngressProvider := spec_IngressProvider (Spec cfg)\<rparr>
             else traefikConfig)
      in traefikConfig)"

definition Reconcile :: "externals \<Rightarrow> Actuator \<Rightarrow> Extension \<Rightarrow> world \<Rightarrow> error option \<times> world" where
  "Reconcile x a ex w =
     (let clusterName = ex_Namespace ex;
          w0 = logger_Info ''reconciling traefik extension'' w
      in case GetCluster clusterName w0 of
           (Inl err, w1) \<Rightarrow> (Some (Errorf ''failed to get cluster: %w'' err), w1)
         | (Inr cluster, w1) \<Rightarrow>
             if HibernationIsEnabled (cluster_Shoot cluster)
             then (None, logger_Info ''shoot is hibernated, skipping traefik deployment'' w1)
             else if Purpose (cluster_Shoot cluster) = None
                     \<or> Purpose (cluster_Shoot cluster) \<noteq> Some ShootPurposeEvaluation
             then
               (let purposeStr =
                      (case Purpose (cluster_Shoot cluster) of
                         None \<Rightarrow> ''nil'' | Some p \<Rightarrow> p)
                in (Some (Errorf (''%w: got purpose '' @ [CHR 0x27] @ purposeStr @ [CHR 0x27])
                            ErrShootPurposeNotEvaluation),
                    logger_Error ''shoot purpose validation failed'' w1))
             else
               (let (traefikConfig, w2) =
                      (case ProviderConfig ex of
                         None \<Rightarrow> (DefaultConfig, w1)
                       | Some raw \<Rightarrow>
                           (case DecodeInto (decoder a) raw of
                              Inl err \<Rightarrow>
                                (DefaultConfig,
                                 logger_Error ''failed to decode provider config, using defaults'' w1)
                            | Inr cfg \<Rightarrow> (applyCustomConfiguration DefaultConfig cfg, w1)));
                    deployer = NewDeployer traefikConfig (actuator_imageVector a)
                in case Deploy x deployer clusterName w2 of
                     (Some err, w3) \<Rightarrow> (Some (Errorf ''failed to deploy traefik: %w'' err), w3)
                   | (None, w3) \<Rightarrow>
                       (None, logger_Info ''successfully reconciled traefik extension'' w3)))"

section \<open>Sample inputs\<close>

text \<open>
  Concrete values for the parameters: sample names for the package constants, an encoder
  that writes an object's kind and name, a checksum that joins the encoded objects, the
  image vector of the deployer's tests, and a decoder that knows one provider
  configuration.
\<close>

fun example_Encode :: "manifest \<Rightarrow> error + string" where
  "example_Encode (ServiceAccountM m) = Inr (Kind (sa_TypeMeta m) @ ''/'' @ Name (sa_ObjectMeta m))"
| "example_Encode (ClusterRoleM m) = Inr (Kind (cr_TypeMeta m) @ ''/'' @ Name (cr_ObjectMeta m))"
| "example_Encode (ClusterRoleBindingM m) = Inr (Kind (crb_TypeMeta m) @ ''/'' @ Name (crb_ObjectMeta m))"
| "example_Encode (DeploymentM m) =
     Inr (Kind (deployment_TypeMeta m) @ ''/'' @ Name (deployment_ObjectMeta m))"
| "example_Encode (ServiceM m) = Inr (Kind (service_TypeMeta m) @ ''/'' @ Name (service_ObjectMeta m))"
| "example_Encode (IngressClassM m) = Inr (Kind (ic_TypeMeta m) @ ''/'' @ Name (ic_ObjectMeta m))"
| "example_Encode (NetworkPolicyM m) = Inr (Kind (np_TypeMeta m) @ ''/'' @ Name (np_ObjectMeta m))"

definition example_externals :: externals where
  "example_externals =
     \<lparr>ManagedResourceName = ''extension-shoot-traefik'',
      ServiceAccountName = ''traefik'',
      DeploymentName = ''traefik'',
      traefik_Namespace = ''kube-system'',
      ImageName = ''traefik'',
      Encode = example_Encode,
      ComputeSecretChecksum = (\<lambda>data. concat (map snd data))\<rparr>"

definition example_imageVector :: ImageVector where
  "example_imageVector = [(''traefik'', ''docker.io/library/traefik:v3.6.7'')]"

definition example_decoder :: "string \<Rightarrow> error + TraefikConfig" where
  "example_decoder raw =
     (if raw = ''nginx''
      then Inr \<lparr>Spec = \<lparr>spec_Image = '''', spec_Replicas = 0, spec_IngressClass = ''nginx'',
                        spec_IngressProvider = ''KubernetesIngressNGINX''\<rparr>\<rparr>
      else Inl (DecodeError raw))"

definition example_actuator :: Actuator where
  "example_actuator = \<lparr>decoder = example_decoder, actuator_imageVector = example_imageVector\<rparr>"

definition example_extension :: "string option \<Rightarrow> Extension" where
  "example_extension raw =
     \<lparr>ex_Name = ''traefik'', ex_Namespace = ''shoot--local--demo'', ProviderConfig = raw\<rparr>"

definition empty_world :: world where
  "empty_world =
     \<lparr>objects = Map.empty, revision = 0, clusters = Map.empty, fault = (\<lambda>v k. None),
      requests = [], exchanges = [], lookups = [], logged = []\<rparr>"

text \<open>A seed that knows the cluster of the sample extension, with the given shoot.\<close>

definition seed_world :: "Shoot \<Rightarrow> world" where
  "seed_world shoot = empty_world\<lparr>clusters := [''shoot--local--demo'' \<mapsto> \<lparr>cluster_Shoot = shoot\<rparr>]\<rparr>"

text \<open>A store an interrupted teardown left behind: the secret without its managed resource.\<close>

definition half_removed_world :: world where
  "half_removed_world =
     empty_world
       \<lparr>objects :=
          [(''Secret'', ''shoot--local--demo'', ''extension-shoot-traefik'') \<mapsto>
             SecretObj
               \<lparr>secret_ObjectMeta =
                  \<lparr>Name = ''extension-shoot-traefik'', Namespace = ''shoot--local--demo'',
                   Labels = [], Annotations = [], ResourceVersion = Some 1\<rparr>,
                secret_Type = ''Opaque'', secret_Data = []\<rparr>],
        revision := 1\<rparr>"

section \<open>Facts about the store, the builder and the deployer\<close>

lemma logger_Info_fields [simp]:
  "objects (logger_Info m w) = objects w" "revision (logger_Info m w) = revision w"
  "clusters (logger_Info m w) = clusters w" "fault (logger_Info m w) = fault w"
  "requests (logger_Info m w) = requests w" "lookups (logger_Info m w) = lookups w"
  "logged (logger_Info m w) = logged w @ [(LevelInfo, m)]"
  "exchanges (logger_Info m w) = exchanges w"
  by (simp_all add: logger_Info_def)

lemma logger_Error_fields [simp]:
  "objects (logger_Error m w) = objects w" "revision (logger_Error m w) = revision w"
  "clusters (logger_Error m w) = clusters w" "fault (logger_Error m w) = fault w"
  "requests (logger_Error m w) = requests w" "lookups (logger_Error m w) = lookups w"
  "logged (logger_Error m w) = logged w @ [(LevelError, m)]"
  "exchanges (logger_Error m w) = exchanges w"
  by (simp_all add: logger_Error_def)

lemma request_fields [simp]:
  "objects (request v k w) = objects w" "revision (request v k w) = revision w"
  "clusters (request v k w) = clusters w" "fault (request v k w) = fault w"
  "requests (request v k w) = requests w @ [(v, k)]" "lookups (request v k w) = lookups w"
  "logged (request v k w) = logged w" "exchanges (request v k w) = exchanges w"
  by (simp_all add: request_def)

lemma answered_fields [simp]:
  "objects (answered v k t r w) = objects w" "revision (answered v k t r w) = revision w"
  "clusters (answered v k t r w) = clusters w" "fault (answered v k t r w) = fault w"
  "requests (answered v k t r w) = requests w" "lookups (answered v k t r w) = lookups w"
  "logged (answered v k t r w) = logged w"
  "exchanges (answered v k t r w) = exchanges w @ [(v, k, t, r)]"
  by (simp_all add: answered_def)

lemma client_Delete_fst:
  "fst (client_Delete obj w) =
     (case fault w VDelete (ObjectKeyFromObject obj) of
        Some e \<Rightarrow> Some e
      | None \<Rightarrow> (case objects w (ObjectKeyFromObject obj) of None \<Rightarrow> Some NotFound | Some old \<Rightarrow> None))"
  by (simp add: client_Delete_def Let_def split: option.split)

lemma client_Delete_fields [simp]:
  "requests (snd (client_Delete obj w)) = requests w @ [(VDelete, ObjectKeyFromObject obj)]"
  "fault (snd (client_Delete obj w)) = fault w"
  "revision (snd (client_Delete obj w)) = revision w"
  "clusters (snd (client_Delete obj w)) = clusters w"
  "lookups (snd (client_Delete obj w)) = lookups w"
  "logged (snd (client_Delete obj w)) = logged w"
  by (simp_all add: client_Delete_def Let_def split: option.split)

lemma client_Delete_objects:
  "objects (snd (client_Delete obj w)) =
     (if fault w VDelete (ObjectKeyFromObject obj) = None
      then (objects w)(ObjectKeyFromObject obj := None) else objects w)"
  by (auto simp add: client_Delete_def Let_def split: option.split)

lemma Delete_succeeds:
  assumes mr: "fault w VDelete (''ManagedResource'', ns, ManagedResourceName x) = None
               \<or> fault w VDelete (''ManagedResource'', ns, ManagedResourceName x) = Some NotFound"
      and se: "fault w VDelete (''Secret'', ns, ManagedResourceName x) = None
               \<or> fault w VDelete (''Secret'', ns, ManagedResourceName x) = Some NotFound"
  shows "\<exists>w'. Delete x d ns w = (None, w')
           \<and> requests w' = requests w @ [(VDelete, (''ManagedResource'', ns, ManagedResourceName x)),
                                         (VDelete, (''Secret'', ns, ManagedResourceName x))]
           \<and> fault w' = fault w
           \<and> objects w' =
               (let m = (if fault w VDelete (''ManagedResource'', ns, ManagedResourceName x) = None
                         then (objects w)((''ManagedResource'', ns, ManagedResourceName x) := None)
                         else objects w)
                in if fault w VDelete (''Secret'', ns, ManagedResourceName x) = None
                   then m((''Secret'', ns, ManagedResourceName x) := None) else m)"
proof -
  let ?mr = "ManagedResourceObj
      \<lparr>mr_ObjectMeta =
         \<lparr>Name = ManagedResourceName x, Namespace = ns, Labels = [],
          Annotations = [], ResourceVersion = None\<rparr>,
       mr_Spec = \<lparr>SecretRefs = [], InjectLabels = [], KeepObjects = None\<rparr>\<rparr>"
  let ?se = "SecretObj
      \<lparr>secret_ObjectMeta =
         \<lparr>Name = ManagedResourceName x, Namespace = ns, Labels = [],
          Annotations = [], ResourceVersion = None\<rparr>,
       secret_Type = '''', secret_Data = []\<rparr>"
  let ?w0 = "logger_Info ''deleting traefik from shoot cluster'' w"
  have kmr: "ObjectKeyFromObject ?mr = (''ManagedResource'', ns, ManagedResourceName x)"
   and kse: "ObjectKeyFromObject ?se = (''Secret'', ns, ManagedResourceName x)"
    by (simp_all add: ObjectKeyFromObject_def)
  obtain r1 w1 where d1: "client_Delete ?mr ?w0 = (r1, w1)"
    by (cases "client_Delete ?mr ?w0") blast
  have r1: "r1 = None \<or> r1 = Some NotFound"
    using client_Delete_fst [of ?mr ?w0] mr unfolding d1 kmr
    by (auto split: option.splits)
  have w1: "requests w1 = requests w @ [(VDelete, (''ManagedResource'', ns, ManagedResourceName x))]"
           "fault w1 = fault w"
           "objects w1 = (if fault w VDelete (''ManagedResource'', ns, ManagedResourceName x) = None
                         then (objects w)((''ManagedResource'', ns, ManagedResourceName x) := None)
                         else objects w)"
    using client_Delete_fields(1,2) [of ?mr ?w0] client_Delete_objects [of ?mr ?w0]
    unfolding d1 kmr by simp_all
  obtain r2 w2 where d2: "client_Delete ?se w1 = (r2, w2)"
    by (cases "client_Delete ?se w1") blast
  have r2: "r2 = None \<or> r2 = Some NotFound"
    using client_Delete_fst [of ?se w1] se unfolding d2 kse w1
    by (auto split: option.splits)
  have w2: "requests w2 = requests w1 @ [(VDelete, (''Secret'', ns, ManagedResourceName x))]"
           "fault w2 = fault w1"
           "objects w2 = (if fault w1 VDelete (''Secret'', ns, ManagedResourceName x) = None
                         then (objects w1)((''Secret'', ns, ManagedResourceName x) := None)
                         else objects w1)"
    using client_Delete_fields(1,2) [of ?se w1] client_Delete_objects [of ?se w1]
    unfolding d2 kse by simp_all
  have "Delete x d ns w = (None, logger_Info ''successfully deleted traefik'' w2)"
    using r1 r2 by (auto simp: Delete_def d1 d2 IgnoreNotFound_def)
  then show ?thesis
    using w1 w2 by (simp add: Let_def)
qed

lemma setResourceVersion_simps [simp]:
  "ResourceVersion (metaOf (setResourceVersion v obj)) = v"
  "setResourceVersion v (setResourceVersion v' obj) = setResourceVersion v obj"
  "ObjectKeyFromObject (setResourceVersion v obj) = ObjectKeyFromObject obj"
  by (cases obj; simp add: ObjectKeyFromObject_def)+

lemma client_Create_nofault:
  assumes "fault w VCreate (ObjectKeyFromObject obj) = None"
  shows "client_Create obj w =
     (case objects w (ObjectKeyFromObject obj) of
        Some old \<Rightarrow>
          (Some AlreadyExists,
           answered VCreate (ObjectKeyFromObject obj) (ResourceVersion (metaOf obj))
             (Some AlreadyExists) (request VCreate (ObjectKeyFromObject obj) w))
      | None \<Rightarrow>
          (None,
           answered VCreate (ObjectKeyFromObject obj) (ResourceVersion (metaOf obj)) None
             ((request VCreate (ObjectKeyFromObject obj) w)
                \<lparr>objects := (objects w)(ObjectKeyFromObject obj \<mapsto>
                                setResourceVersion (Some (Suc (revision w))) obj),
                 revision := Suc (revision w)\<rparr>)))"
  using assms by (simp add: client_Create_def Let_def split: option.split)

lemma client_Get_nofault:
  assumes "fault w VGet k = None"
  shows "client_Get k w =
     (case objects w k of
        None \<Rightarrow> (Inl NotFound, answered VGet k None (Some NotFound) (request VGet k w))
      | Some obj \<Rightarrow> (Inr obj, answered VGet k None None (request VGet k w)))"
  using assms by (simp add: client_Get_def Let_def split: option.split)

lemma client_Update_nofault:
  assumes "ObjectKeyFromObject obj = k"
      and "fault w VUpdate k = None"
      and "objects w k = Some old"
      and "setResourceVersion (ResourceVersion (metaOf old)) obj = obj"
  shows "client_Update obj w =
     (None,
      answered VUpdate k (ResourceVersion (metaOf old)) None
        (if obj = old then request VUpdate k w
         else (request VUpdate k w)
                \<lparr>objects := (objects w)(k \<mapsto> setResourceVersion (Some (Suc (revision w))) obj),
                 revision := Suc (revision w)\<rparr>))"
proof -
  have "ResourceVersion (metaOf obj) = ResourceVersion (metaOf old)"
    using assms(4) by (metis setResourceVersion_simps(1))
  then show ?thesis
    using assms by (simp add: client_Update_def Let_def)
qed

lemma create_or_update:
  assumes c: "fault w VCreate (ObjectKeyFromObject obj) = None"
      and g: "fault w VGet (ObjectKeyFromObject obj) = None"
      and u: "fault w VUpdate (ObjectKeyFromObject obj) = None"
  obtains w' where
     "(case client_Create obj w of
        (None, w') \<Rightarrow> (None, w')
      | (Some err, w') \<Rightarrow>
          (case IgnoreAlreadyExists err of
             Some e \<Rightarrow> (Some (E1 err), w')
           | None \<Rightarrow>
               (case client_Get (ObjectKeyFromObject obj) w' of
                  (Inl err, w'') \<Rightarrow> (Some (E2 err), w'')
                | (Inr existing, w'') \<Rightarrow>
                    (case client_Update (setResourceVersion (ResourceVersion (metaOf existing)) obj) w'' of
                       (Some err, w''') \<Rightarrow> (Some (E3 err), w''')
                     | (None, w''') \<Rightarrow> (None, w'''))))) = (None, w')"
     "fault w' = fault w"
     "logged w' = logged w"
     "\<exists>v. objects w' (ObjectKeyFromObject obj) = Some (setResourceVersion v obj)"
     "\<forall>k. k \<noteq> ObjectKeyFromObject obj \<longrightarrow> objects w' k = objects w k"
     "(\<exists>v. objects w (ObjectKeyFromObject obj) = Some (setResourceVersion v obj)) \<longrightarrow>
           objects w' = objects w \<and> revision w' = revision w
           \<and> requests w' = requests w @ [(VCreate, ObjectKeyFromObject obj),
                 (VGet, ObjectKeyFromObject obj), (VUpdate, ObjectKeyFromObject obj)]"
     "\<forall>old. objects w (ObjectKeyFromObject obj) = Some old \<longrightarrow>
           exchanges w' = exchanges w @
             [(VCreate, ObjectKeyFromObject obj, ResourceVersion (metaOf obj), Some AlreadyExists),
              (VGet, ObjectKeyFromObject obj, None, None),
              (VUpdate, ObjectKeyFromObject obj, ResourceVersion (metaOf old), None)]"
     "objects w (ObjectKeyFromObject obj) = None \<longrightarrow>
           objects w' = (objects w)(ObjectKeyFromObject obj \<mapsto>
                           setResourceVersion (Some (Suc (revision w))) obj)
           \<and> revision w' = Suc (revision w)
           \<and> requests w' = requests w @ [(VCreate, ObjectKeyFromObject obj)]
           \<and> exchanges w' = exchanges w @
               [(VCreate, ObjectKeyFromObject obj, ResourceVersion (metaOf obj), None)]"
proof (cases "objects w (ObjectKeyFromObject obj)")
  case None
  let ?k = "ObjectKeyFromObject obj"
  let ?w' = "answered VCreate ?k (ResourceVersion (metaOf obj)) None
               ((request VCreate ?k w)
                  \<lparr>objects := (objects w)(?k \<mapsto> setResourceVersion (Some (Suc (revision w))) obj),
                   revision := Suc (revision w)\<rparr>)"
  have cr: "client_Create obj w = (None, ?w')"
    using c None by (simp add: client_Create_nofault)
  show thesis
    apply (rule that [of ?w'])
    subgoal by (simp add: cr)
    subgoal by simp
    subgoal by simp
    subgoal by auto
    subgoal by simp
    subgoal by (simp add: None)
    subgoal by (simp add: None)
    subgoal by simp
    done
next
  case (Some old)
  let ?k = "ObjectKeyFromObject obj"
  let ?w1 = "answered VCreate ?k (ResourceVersion (metaOf obj)) (Some AlreadyExists)
               (request VCreate ?k w)"
  let ?w2 = "answered VGet ?k None None (request VGet ?k ?w1)"
  let ?w3 = "request VUpdate ?k ?w2"
  let ?new = "setResourceVersion (ResourceVersion (metaOf old)) obj"
  let ?w' = "answered VUpdate ?k (ResourceVersion (metaOf old)) None
              (if ?new = old then ?w3
               else ?w3\<lparr>objects := (objects w)(?k \<mapsto> setResourceVersion (Some (Suc (revision w))) obj),
                         revision := Suc (revision w)\<rparr>)"
  have cr: "client_Create obj w = (Some AlreadyExists, ?w1)"
    using c Some by (simp add: client_Create_nofault)
  have ge: "client_Get ?k ?w1 = (Inr old, ?w2)"
    using g Some by (simp add: client_Get_nofault)
  have up: "client_Update ?new ?w2 = (None, ?w')"
    using client_Update_nofault [of ?new ?k ?w2 old] u Some by simp
  have stable: "?new = old" if "objects w ?k = Some (setResourceVersion v obj)" for v
    using that Some by auto
  have after: "\<exists>v. old = setResourceVersion v obj" if "?new = old"
    using that by metis
  show thesis
    apply (rule that [of ?w'])
    subgoal by (simp add: cr ge up IgnoreAlreadyExists_def)
    subgoal by simp
    subgoal by simp
    subgoal using after by (auto simp: Some)
    subgoal by simp
    subgoal using stable by auto
    subgoal by (simp add: Some)
    subgoal by (simp add: Some)
    done
qed

lemma FindImage_eq:
  "FindImage iv name w =
     ((case map_of iv name of None \<Rightarrow> Inl (ImageNotFound name) | Some img \<Rightarrow> Inr img),
      w\<lparr>lookups := lookups w @ [name]\<rparr>)"
  by (simp add: FindImage_def Let_def split: option.split)

lemma deployment_snd:
  "snd (deployment x d w) =
     (if Image (config d) = '''' then w\<lparr>lookups := lookups w @ [ImageName x]\<rparr> else w)"
  by (simp add: deployment_def FindImage_eq Let_def split: option.split sum.split)

lemma deployment_fst_indep:
  "fst (deployment x d w) = fst (deployment x d w')"
  by (simp add: deployment_def FindImage_eq Let_def split: option.split sum.split)

lemma generateResources_snd:
  "snd (generateResources x d w) = w
   \<or> snd (generateResources x d w) = w\<lparr>lookups := lookups w @ [ImageName x]\<rparr>"
proof (cases "deployment x d w")
  case (Pair r w1)
  then have "w1 = w \<or> w1 = w\<lparr>lookups := lookups w @ [ImageName x]\<rparr>"
    using deployment_snd [of x d w] by (auto split: if_splits)
  then show ?thesis
    by (auto simp: generateResources_def Pair Let_def split: sum.split)
qed

lemma generateResources_fst_indep:
  "fst (generateResources x d w) = fst (generateResources x d w')"
proof (cases "deployment x d w")
  case (Pair r w1)
  obtain r' w1' where p': "deployment x d w' = (r', w1')"
    by (cases "deployment x d w'") blast
  have "r' = r"
    using deployment_fst_indep [of x d w w'] Pair p' by simp
  then show ?thesis
    by (simp add: generateResources_def Pair p' Let_def split: sum.split)
qed

lemma generateResources_fields:
  "objects (snd (generateResources x d w)) = objects w"
  "revision (snd (generateResources x d w)) = revision w"
  "fault (snd (generateResources x d w)) = fault w"
  "requests (snd (generateResources x d w)) = requests w"
  "clusters (snd (generateResources x d w)) = clusters w"
  "logged (snd (generateResources x d w)) = logged w"
  "exchanges (snd (generateResources x d w)) = exchanges w"
  using generateResources_snd [of x d w] by auto

lemma Deploy_applies:
  assumes nf: "\<And>v k. fault w v k = None"
      and gen: "fst (generateResources x d w) = Inr resources"
  shows "fst (Deploy x d ns w) = None"
    and "fault (snd (Deploy x d ns w)) = fault w"
    and "\<exists>v. objects (snd (Deploy x d ns w)) (''Secret'', ns, ManagedResourceName x) =
           Some (SecretObj
             \<lparr>secret_ObjectMeta =
                \<lparr>Name = ManagedResourceName x, Namespace = ns, Labels = [],
                 Annotations = [(''resources.gardener.cloud/data-checksum'',
                                 ComputeSecretChecksum x resources)],
                 ResourceVersion = v\<rparr>,
              secret_Type = ''Opaque'', secret_Data = resources\<rparr>)"
    and "\<exists>v. objects (snd (Deploy x d ns w)) (''ManagedResource'', ns, ManagedResourceName x) =
           Some (ManagedResourceObj
             \<lparr>mr_ObjectMeta =
                \<lparr>Name = ManagedResourceName x, Namespace = ns, Labels = [],
                 Annotations = [], ResourceVersion = v\<rparr>,
              mr_Spec =
                \<lparr>SecretRefs = [ManagedResourceName x],
                 InjectLabels = [(''shoot.gardener.cloud/no-cleanup'', ''true'')],
                 KeepObjects = Some False\<rparr>\<rparr>)"
    and "(\<exists>v. objects w (''Secret'', ns, ManagedResourceName x) =
           Some (SecretObj
             \<lparr>secret_ObjectMeta =
                \<lparr>Name = ManagedResourceName x, Namespace = ns, Labels = [],
                 Annotations = [(''resources.gardener.cloud/data-checksum'',
                                 ComputeSecretChecksum x resources)],
                 ResourceVersion = v\<rparr>,
              secret_Type = ''Opaque'', secret_Data = resources\<rparr>))
        \<and> (\<exists>v. objects w (''ManagedResource'', ns, ManagedResourceName x) =
           Some (ManagedResourceObj
             \<lparr>mr_ObjectMeta =
                \<lparr>Name = ManagedResourceName x, Namespace = ns, Labels = [],
                 Annotations = [], ResourceVersion = v\<rparr>,
              mr_Spec =
                \<lparr>SecretRefs = [ManagedResourceName x],
                 InjectLabels = [(''shoot.gardener.cloud/no-cleanup'', ''true'')],
                 KeepObjects = Some False\<rparr>\<rparr>))
        \<longrightarrow> objects (snd (Deploy x d ns w)) = objects w
            \<and> revision (snd (Deploy x d ns w)) = revision w
            \<and> requests (snd (Deploy x d ns w)) = requests w @
                 [(VCreate, (''Secret'', ns, ManagedResourceName x)),
                  (VGet, (''Secret'', ns, ManagedResourceName x)),
                  (VUpdate, (''Secret'', ns, ManagedResourceName x)),
                  (VCreate, (''ManagedResource'', ns, ManagedResourceName x)),
                  (VGet, (''ManagedResource'', ns, ManagedResourceName x)),
                  (VUpdate, (''ManagedResource'', ns, ManagedResourceName x))]"
    and "logged (snd (Deploy x d ns w)) =
          logged w @ [(LevelInfo, ''deploying traefik to shoot cluster''),
                      (LevelInfo, ''successfully deployed traefik'')]"
    and "objects w (''Secret'', ns, ManagedResourceName x) =
           Some (SecretObj
             \<lparr>secret_ObjectMeta =
                \<lparr>Name = ManagedResourceName x, Namespace = ns, Labels = [],
                 Annotations = [(''resources.gardener.cloud/data-checksum'',
                                 ComputeSecretChecksum x resources)],
                 ResourceVersion = v1\<rparr>,
              secret_Type = ''Opaque'', secret_Data = resources\<rparr>)
        \<and> objects w (''ManagedResource'', ns, ManagedResourceName x) =
           Some (ManagedResourceObj
             \<lparr>mr_ObjectMeta =
                \<lparr>Name = ManagedResourceName x, Namespace = ns, Labels = [],
                 Annotations = [], ResourceVersion = v2\<rparr>,
              mr_Spec =
                \<lparr>SecretRefs = [ManagedResourceName x],
                 InjectLabels = [(''shoot.gardener.cloud/no-cleanup'', ''true'')],
                 KeepObjects = Some False\<rparr>\<rparr>)
        \<longrightarrow> exchanges (snd (Deploy x d ns w)) = exchanges w @
                 [(VCreate, (''Secret'', ns, ManagedResourceName x), None, Some AlreadyExists),
                  (VGet, (''Secret'', ns, ManagedResourceName x), None, None),
                  (VUpdate, (''Secret'', ns, ManagedResourceName x), v1, None),
                  (VCreate, (''ManagedResource'', ns, ManagedResourceName x), None,
                     Some AlreadyExists),
                  (VGet, (''ManagedResource'', ns, ManagedResourceName x), None, None),
                  (VUpdate, (''ManagedResource'', ns, ManagedResourceName x), v2, None)]"
    and "objects w (''Secret'', ns, ManagedResourceName x) = None
        \<and> objects w (''ManagedResource'', ns, ManagedResourceName x) = None
        \<longrightarrow> objects (snd (Deploy x d ns w)) =
              (objects w)
                ((''Secret'', ns, ManagedResourceName x) \<mapsto>
                   SecretObj
                     \<lparr>secret_ObjectMeta =
                        \<lparr>Name = ManagedResourceName x, Namespace = ns, Labels = [],
                         Annotations = [(''resources.gardener.cloud/data-checksum'',
                                         ComputeSecretChecksum x resources)],
                         ResourceVersion = Some (Suc (revision w))\<rparr>,
                      secret_Type = ''Opaque'', secret_Data = resources\<rparr>,
                 (''ManagedResource'', ns, ManagedResourceName x) \<mapsto>
                   ManagedResourceObj
                     \<lparr>mr_ObjectMeta =
                        \<lparr>Name = ManagedResourceName x, Namespace = ns, Labels = [],
                         Annotations = [], ResourceVersion = Some (Suc (Suc (revision w)))\<rparr>,
                      mr_Spec =
                        \<lparr>SecretRefs = [ManagedResourceName x],
                         InjectLabels = [(''shoot.gardener.cloud/no-cleanup'', ''true'')],
                         KeepObjects = Some False\<rparr>\<rparr>)
            \<and> revision (snd (Deploy x d ns w)) = Suc (Suc (revision w))
            \<and> requests (snd (Deploy x d ns w)) = requests w @
                 [(VCreate, (''Secret'', ns, ManagedResourceName x)),
                  (VCreate, (''ManagedResource'', ns, ManagedResourceName x))]
            \<and> exchanges (snd (Deploy x d ns w)) = exchanges w @
                 [(VCreate, (''Secret'', ns, ManagedResourceName x), None, None),
                  (VCreate, (''ManagedResource'', ns, ManagedResourceName x), None, None)]"
proof -
  let ?sk = "(''Secret'', ns, ManagedResourceName x)"
  let ?mk = "(''ManagedResource'', ns, ManagedResourceName x)"
  let ?secret = "
             \<lparr>secret_ObjectMeta =
                \<lparr>Name = ManagedResourceName x, Namespace = ns, Labels = [],
                 Annotations = [(''resources.gardener.cloud/data-checksum'',
                                 ComputeSecretChecksum x resources)],
                 ResourceVersion = None\<rparr>,
              secret_Type = ''Opaque'', secret_Data = resources\<rparr>"
  let ?mr = "
             \<lparr>mr_ObjectMeta =
                \<lparr>Name = ManagedResourceName x, Namespace = ns, Labels = [],
                 Annotations = [], ResourceVersion = None\<rparr>,
              mr_Spec =
                \<lparr>SecretRefs = [ManagedResourceName x],
                 InjectLabels = [(''shoot.gardener.cloud/no-cleanup'', ''true'')],
                 KeepObjects = Some False\<rparr>\<rparr>"
  let ?w0 = "logger_Info ''deploying traefik to shoot cluster'' w"
  have ks: "ObjectKeyFromObject (SecretObj ?secret) = ?sk"
   and km: "ObjectKeyFromObject (ManagedResourceObj ?mr) = ?mk"
    by (simp_all add: ObjectKeyFromObject_def)
  obtain w1 where g: "generateResources x d ?w0 = (Inr resources, w1)"
    using gen generateResources_fst_indep [of x d ?w0 w]
    by (cases "generateResources x d ?w0") simp
  have w1: "objects w1 = objects w" "revision w1 = revision w" "fault w1 = fault w"
           "requests w1 = requests w" "exchanges w1 = exchanges w"
           "logged w1 = logged w @ [(LevelInfo, ''deploying traefik to shoot cluster'')]"
    using generateResources_fields [of x d ?w0] by (simp_all add: g)
  have nf1: "\<And>v k. fault w1 v k = None"
    by (simp add: w1 nf)
  let ?ok = "ObjectKeyFromObject (SecretObj ?secret)"
  obtain w2 where p1:
    "(case client_Create (SecretObj ?secret) w1 of
        (None, w') \<Rightarrow> (None, w')
      | (Some err, w') \<Rightarrow>
          (case IgnoreAlreadyExists err of
             Some e \<Rightarrow> (Some (Errorf ''failed to create secret: %w'' (ApiError err)), w')
           | None \<Rightarrow>
               (case client_Get (ObjectKeyFromObject (SecretObj ?secret)) w' of
                  (Inl err, w'') \<Rightarrow>
                    (Some (Errorf ''failed to get existing secret: %w'' (ApiError err)), w'')
                | (Inr existing, w'') \<Rightarrow>
                    (case client_Update
                            (setResourceVersion (ResourceVersion (metaOf existing))
                               (SecretObj ?secret)) w'' of
                       (Some err, w''') \<Rightarrow>
                         (Some (Errorf ''failed to update secret: %w'' (ApiError err)), w''')
                     | (None, w''') \<Rightarrow> (None, w'''))))) = (None, w2)"
    and w2': "fault w2 = fault w1" "logged w2 = logged w1"
      "\<exists>v. objects w2 ?ok = Some (setResourceVersion v (SecretObj ?secret))"
      "\<forall>k. k \<noteq> ?ok \<longrightarrow> objects w2 k = objects w1 k"
      "(\<exists>v. objects w1 ?ok = Some (setResourceVersion v (SecretObj ?secret))) \<longrightarrow>
           objects w2 = objects w1 \<and> revision w2 = revision w1
           \<and> requests w2 = requests w1 @ [(VCreate, ?ok), (VGet, ?ok), (VUpdate, ?ok)]"
      "\<forall>old. objects w1 ?ok = Some old \<longrightarrow>
           exchanges w2 = exchanges w1 @
             [(VCreate, ?ok, ResourceVersion (metaOf (SecretObj ?secret)), Some AlreadyExists),
              (VGet, ?ok, None, None),
              (VUpdate, ?ok, ResourceVersion (metaOf old), None)]"
      "objects w1 ?ok = None \<longrightarrow>
           objects w2 = (objects w1)(?ok \<mapsto>
                           setResourceVersion (Some (Suc (revision w1))) (SecretObj ?secret))
           \<and> revision w2 = Suc (revision w1)
           \<and> requests w2 = requests w1 @ [(VCreate, ?ok)]
           \<and> exchanges w2 = exchanges w1 @
               [(VCreate, ?ok, ResourceVersion (metaOf (SecretObj ?secret)), None)]"
    by (rule create_or_update [of w1 "SecretObj ?secret", OF nf1 nf1 nf1])
  note w2 = w2' [unfolded ks]
  have nf2: "\<And>v k. fault w2 v k = None"
    by (simp add: w2 nf1)
  let ?om = "ObjectKeyFromObject (ManagedResourceObj ?mr)"
  obtain w3 where p2:
    "(case client_Create (ManagedResourceObj ?mr) w2 of
        (None, w') \<Rightarrow> (None, w')
      | (Some err, w') \<Rightarrow>
          (case IgnoreAlreadyExists err of
             Some e \<Rightarrow>
               (Some (Errorf ''failed to create managed resource: %w'' (ApiError err)), w')
           | None \<Rightarrow>
               (case client_Get (ObjectKeyFromObject (ManagedResourceObj ?mr)) w' of
                  (Inl err, w'') \<Rightarrow>
                    (Some (Errorf ''failed to get existing managed resource: %w''
                             (ApiError err)), w'')
                | (Inr existing, w'') \<Rightarrow>
                    (case client_Update
                            (setResourceVersion (ResourceVersion (metaOf existing))
                               (ManagedResourceObj ?mr)) w'' of
                       (Some err, w''') \<Rightarrow>
                         (Some (Errorf ''failed to update managed resource: %w''
                                  (ApiError err)), w''')
                     | (None, w''') \<Rightarrow> (None, w'''))))) = (None, w3)"
    and w3': "fault w3 = fault w2" "logged w3 = logged w2"
      "\<exists>v. objects w3 ?om = Some (setResourceVersion v (ManagedResourceObj ?mr))"
      "\<forall>k. k \<noteq> ?om \<longrightarrow> objects w3 k = objects w2 k"
      "(\<exists>v. objects w2 ?om = Some (setResourceVersion v (ManagedResourceObj ?mr))) \<longrightarrow>
           objects w3 = objects w2 \<and> revision w3 = revision w2
           \<and> requests w3 = requests w2 @ [(VCreate, ?om), (VGet, ?om), (VUpdate, ?om)]"
      "\<forall>old. objects w2 ?om = Some old \<longrightarrow>
           exchanges w3 = exchanges w2 @
             [(VCreate, ?om, ResourceVersion (metaOf (ManagedResourceObj ?mr)), Some AlreadyExists),
              (VGet, ?om, None, None),
              (VUpdate, ?om, ResourceVersion (metaOf old), None)]"
      "objects w2 ?om = None \<longrightarrow>
           objects w3 = (objects w2)(?om \<mapsto>
                           setResourceVersion (Some (Suc (revision w2))) (ManagedResourceObj ?mr))
           \<and> revision w3 = Suc (revision w2)
           \<and> requests w3 = requests w2 @ [(VCreate, ?om)]
           \<and> exchanges w3 = exchanges w2 @
               [(VCreate, ?om, ResourceVersion (metaOf (ManagedResourceObj ?mr)), None)]"
    by (rule create_or_update [of w2 "ManagedResourceObj ?mr", OF nf2 nf2 nf2])
  note w3 = w3' [unfolded km]
  have D: "Deploy x d ns w = (None, logger_Info ''successfully deployed traefik'' w3)"
    by (simp only: Deploy_def Let_def g prod.case sum.case p1 p2 option.case)
  have sk3: "objects w3 ?sk = objects w2 ?sk"
    using w3(4) by simp
  show "fst (Deploy x d ns w) = None"
    by (simp add: D)
  show "fault (snd (Deploy x d ns w)) = fault w"
    by (simp add: D w3 w2 w1)
  let ?S = "\<lambda>v. SecretObj
             \<lparr>secret_ObjectMeta =
                \<lparr>Name = ManagedResourceName x, Namespace = ns, Labels = [],
                 Annotations = [(''resources.gardener.cloud/data-checksum'',
                                 ComputeSecretChecksum x resources)],
                 ResourceVersion = v\<rparr>,
              secret_Type = ''Opaque'', secret_Data = resources\<rparr>"
  let ?M = "\<lambda>v. ManagedResourceObj
             \<lparr>mr_ObjectMeta =
                \<lparr>Name = ManagedResourceName x, Namespace = ns, Labels = [],
                 Annotations = [], ResourceVersion = v\<rparr>,
              mr_Spec =
                \<lparr>SecretRefs = [ManagedResourceName x],
                 InjectLabels = [(''shoot.gardener.cloud/no-cleanup'', ''true'')],
                 KeepObjects = Some False\<rparr>\<rparr>"
  show "\<exists>v. objects (snd (Deploy x d ns w)) ?sk = Some (?S v)"
    using w2(3) by (simp add: D sk3)
  show "\<exists>v. objects (snd (Deploy x d ns w)) ?mk = Some (?M v)"
    using w3(3) by (simp add: D)
  show "(\<exists>v. objects w ?sk = Some (?S v)) \<and> (\<exists>v. objects w ?mk = Some (?M v))
      \<longrightarrow> objects (snd (Deploy x d ns w)) = objects w
            \<and> revision (snd (Deploy x d ns w)) = revision w
            \<and> requests (snd (Deploy x d ns w)) = requests w @
                 [(VCreate, ?sk), (VGet, ?sk), (VUpdate, ?sk),
                  (VCreate, ?mk), (VGet, ?mk), (VUpdate, ?mk)]"
    using w2(5) w3(5) by (auto simp: D w1)
  show "logged (snd (Deploy x d ns w)) =
          logged w @ [(LevelInfo, ''deploying traefik to shoot cluster''),
                      (LevelInfo, ''successfully deployed traefik'')]"
    by (simp add: D w3 w2 w1)
  have mk2: "objects w2 ?mk = objects w ?mk"
    using w2(4) by (simp add: w1)
  show "objects w ?sk = Some (?S v1) \<and> objects w ?mk = Some (?M v2)
        \<longrightarrow> exchanges (snd (Deploy x d ns w)) = exchanges w @
                 [(VCreate, ?sk, None, Some AlreadyExists),
                  (VGet, ?sk, None, None),
                  (VUpdate, ?sk, v1, None),
                  (VCreate, ?mk, None, Some AlreadyExists),
                  (VGet, ?mk, None, None),
                  (VUpdate, ?mk, v2, None)]"
    using w2(6) w3(6) by (simp add: D w1 mk2)
  show "objects w ?sk = None \<and> objects w ?mk = None
        \<longrightarrow> objects (snd (Deploy x d ns w)) =
              (objects w)(?sk \<mapsto> ?S (Some (Suc (revision w))),
                          ?mk \<mapsto> ?M (Some (Suc (Suc (revision w)))))
            \<and> revision (snd (Deploy x d ns w)) = Suc (Suc (revision w))
            \<and> requests (snd (Deploy x d ns w)) = requests w @ [(VCreate, ?sk), (VCreate, ?mk)]
            \<and> exchanges (snd (Deploy x d ns w)) = exchanges w @
                 [(VCreate, ?sk, None, None), (VCreate, ?mk, None, None)]"
    using w2(7) w3(7) by (simp add: D w1 mk2)
qed

section \<open>Teardown\<close>

text \<open>
  C3. \<open>Deployer.Delete\<close> deletes the managed resource first and the secret second.
  When the store answers each of the two deletes with success or \<open>NotFound\<close>, the call
  succeeds, whatever the store holds: nothing, one of the two objects only, or both. The
  store has received exactly the two deletes, in that order; an object whose delete it
  carried out is gone; and a second \<open>Delete\<close> right after succeeds as well.
\<close>

theorem Delete_ignores_NotFound:
  assumes mr: "fault w VDelete (''ManagedResource'', ns, ManagedResourceName x) = None
               \<or> fault w VDelete (''ManagedResource'', ns, ManagedResourceName x) = Some NotFound"
      and se: "fault w VDelete (''Secret'', ns, ManagedResourceName x) = None
               \<or> fault w VDelete (''Secret'', ns, ManagedResourceName x) = Some NotFound"
  shows "fst (Delete x d ns w) = None
     \<and> requests (snd (Delete x d ns w)) =
         requests w @ [(VDelete, (''ManagedResource'', ns, ManagedResourceName x)),
                       (VDelete, (''Secret'', ns, ManagedResourceName x))]
     \<and> objects (snd (Delete x d ns w)) =
         (let m = (if fault w VDelete (''ManagedResource'', ns, ManagedResourceName x) = None
                   then (objects w)((''ManagedResource'', ns, ManagedResourceName x) := None)
                   else objects w)
          in if fault w VDelete (''Secret'', ns, ManagedResourceName x) = None
             then m((''Secret'', ns, ManagedResourceName x) := None) else m)
     \<and> fst (Delete x d ns (snd (Delete x d ns w))) = None"
proof -
  from Delete_succeeds [OF mr se, of d] obtain w' where
    first: "Delete x d ns w = (None, w')"
      "requests w' = requests w @ [(VDelete, (''ManagedResource'', ns, ManagedResourceName x)),
                                   (VDelete, (''Secret'', ns, ManagedResourceName x))]"
      "fault w' = fault w"
      "objects w' =
         (let m = (if fault w VDelete (''ManagedResource'', ns, ManagedResourceName x) = None
                   then (objects w)((''ManagedResource'', ns, ManagedResourceName x) := None)
                   else objects w)
          in if fault w VDelete (''Secret'', ns, ManagedResourceName x) = None
             then m((''Secret'', ns, ManagedResourceName x) := None) else m)"
    by (elim exE conjE)
  have mr': "fault w' VDelete (''ManagedResource'', ns, ManagedResourceName x) = None
             \<or> fault w' VDelete (''ManagedResource'', ns, ManagedResourceName x) = Some NotFound"
   and se': "fault w' VDelete (''Secret'', ns, ManagedResourceName x) = None
             \<or> fault w' VDelete (''Secret'', ns, ManagedResourceName x) = Some NotFound"
    using mr se by (simp_all only: first(3))
  from Delete_succeeds [OF mr' se', of d] obtain w'' where
    second: "Delete x d ns w' = (None, w'')"
    by (elim exE conjE)
  show ?thesis
    by (simp only: first second fst_conv snd_conv simp_thms)
qed

theorem Delete_ignores_NotFound_witness:
  "fault half_removed_world VDelete
       (''ManagedResource'', ''shoot--local--demo'', ManagedResourceName example_externals) = None
   \<and> fault half_removed_world VDelete
       (''Secret'', ''shoot--local--demo'', ManagedResourceName example_externals) = None
   \<and> objects half_removed_world
       (''ManagedResource'', ''shoot--local--demo'', ''extension-shoot-traefik'') = None
   \<and> objects half_removed_world
       (''Secret'', ''shoot--local--demo'', ''extension-shoot-traefik'') \<noteq> None
   \<and> fst (Delete example_externals (NewDeployer DefaultConfig example_imageVector)
            ''shoot--local--demo'' half_removed_world) = None
   \<and> requests (snd (Delete example_externals (NewDeployer DefaultConfig example_imageVector)
            ''shoot--local--demo'' half_removed_world)) =
         [(VDelete, (''ManagedResource'', ''shoot--local--demo'', ''extension-shoot-traefik'')),
          (VDelete, (''Secret'', ''shoot--local--demo'', ''extension-shoot-traefik''))]
   \<and> objects (snd (Delete example_externals (NewDeployer DefaultConfig example_imageVector)
            ''shoot--local--demo'' half_removed_world))
         (''Secret'', ''shoot--local--demo'', ''extension-shoot-traefik'') = None
   \<and> fst (Delete example_externals (NewDeployer DefaultConfig example_imageVector)
            ''shoot--local--demo''
            (snd (Delete example_externals (NewDeployer DefaultConfig example_imageVector)
                    ''shoot--local--demo'' half_removed_world))) = None"
  using Delete_ignores_NotFound
    [of half_removed_world "''shoot--local--demo''" example_externals
        "NewDeployer DefaultConfig example_imageVector"]
  by (simp add: half_removed_world_def empty_world_def example_externals_def)

section \<open>Convergence\<close>

lemma generateResources_example:
  "fst (generateResources example_externals
          (NewDeployer (DefaultConfig\<lparr>Image := ''custom:v1''\<rparr>) example_imageVector) w)
   = Inr [(''serviceaccount.yaml'', ''ServiceAccount/traefik''),
          (''clusterrole.yaml'', ''ClusterRole/traefik-ingress-controller''),
          (''clusterrolebinding.yaml'', ''ClusterRoleBinding/traefik-ingress-controller''),
          (''deployment.yaml'', ''Deployment/traefik''),
          (''service.yaml'', ''Service/traefik''),
          (''ingressclass.yaml'', ''IngressClass/traefik''),
          (''networkpolicy.yaml'', ''NetworkPolicy/traefik-allow-ingress'')]"
  by (simp add: generateResources_def deployment_def serviceAccount_def clusterRole_def
        clusterRoleBinding_def service_def ingressClass_def networkPolicy_def
        example_externals_def NewDeployer_def DefaultConfig_def Let_def)

text \<open>
  C1. \<open>Deployer.Deploy\<close> is idempotent. For a configuration whose bundle can be
  built and a store that answers every request by its contract, the first call succeeds
  and leaves in the store the secret with the bundle and its checksum and the managed
  resource that refers to it; on a target that held neither, it has created both. A
  second call right after it succeeds too and leaves the store as the first left it,
  objects and version tokens alike: each of its two creates is answered
  \<open>AlreadyExists\<close> and is followed by a get and by an update that carries the version
  token the store holds for that object.
\<close>

theorem Deploy_idempotent:
  assumes nf: "\<And>v k. fault w v k = None"
      and gen: "fst (generateResources x d w) = Inr resources"
  shows "fst (Deploy x d ns w) = None
     \<and> (\<exists>v1 v2.
           objects (snd (Deploy x d ns w)) (''Secret'', ns, ManagedResourceName x) =
             Some (SecretObj
               \<lparr>secret_ObjectMeta =
                  \<lparr>Name = ManagedResourceName x, Namespace = ns, Labels = [],
                   Annotations = [(''resources.gardener.cloud/data-checksum'',
                                   ComputeSecretChecksum x resources)],
                   ResourceVersion = v1\<rparr>,
                secret_Type = ''Opaque'', secret_Data = resources\<rparr>)
         \<and> objects (snd (Deploy x d ns w)) (''ManagedResource'', ns, ManagedResourceName x) =
             Some (ManagedResourceObj
               \<lparr>mr_ObjectMeta =
                  \<lparr>Name = ManagedResourceName x, Namespace = ns, Labels = [],
                   Annotations = [], ResourceVersion = v2\<rparr>,
                mr_Spec =
                  \<lparr>SecretRefs = [ManagedResourceName x],
                   InjectLabels = [(''shoot.gardener.cloud/no-cleanup'', ''true'')],
                   KeepObjects = Some False\<rparr>\<rparr>)
         \<and> exchanges (snd (Deploy x d ns (snd (Deploy x d ns w)))) =
             exchanges (snd (Deploy x d ns w)) @
               [(VCreate, (''Secret'', ns, ManagedResourceName x), None, Some AlreadyExists),
                (VGet, (''Secret'', ns, ManagedResourceName x), None, None),
                (VUpdate, (''Secret'', ns, ManagedResourceName x), v1, None),
                (VCreate, (''ManagedResource'', ns, ManagedResourceName x), None,
                   Some AlreadyExists),
                (VGet, (''ManagedResource'', ns, ManagedResourceName x), None, None),
                (VUpdate, (''ManagedResource'', ns, ManagedResourceName x), v2, None)])
     \<and> fst (Deploy x d ns (snd (Deploy x d ns w))) = None
     \<and> objects (snd (Deploy x d ns (snd (Deploy x d ns w)))) = objects (snd (Deploy x d ns w))
     \<and> revision (snd (Deploy x d ns (snd (Deploy x d ns w)))) = revision (snd (Deploy x d ns w))
     \<and> requests (snd (Deploy x d ns (snd (Deploy x d ns w)))) =
           requests (snd (Deploy x d ns w)) @
             [(VCreate, (''Secret'', ns, ManagedResourceName x)),
              (VGet, (''Secret'', ns, ManagedResourceName x)),
              (VUpdate, (''Secret'', ns, ManagedResourceName x)),
              (VCreate, (''ManagedResource'', ns, ManagedResourceName x)),
              (VGet, (''ManagedResource'', ns, ManagedResourceName x)),
              (VUpdate, (''ManagedResource'', ns, ManagedResourceName x))]
     \<and> (objects w (''Secret'', ns, ManagedResourceName x) = None
          \<and> objects w (''ManagedResource'', ns, ManagedResourceName x) = None
         \<longrightarrow> objects (snd (Deploy x d ns w)) =
              (objects w)
                ((''Secret'', ns, ManagedResourceName x) \<mapsto>
                   SecretObj
                     \<lparr>secret_ObjectMeta =
                        \<lparr>Name = ManagedResourceName x, Namespace = ns, Labels = [],
                         Annotations = [(''resources.gardener.cloud/data-checksum'',
                                         ComputeSecretChecksum x resources)],
                         ResourceVersion = Some (Suc (revision w))\<rparr>,
                      secret_Type = ''Opaque'', secret_Data = resources\<rparr>,
                 (''ManagedResource'', ns, ManagedResourceName x) \<mapsto>
                   ManagedResourceObj
                     \<lparr>mr_ObjectMeta =
                        \<lparr>Name = ManagedResourceName x, Namespace = ns, Labels = [],
                         Annotations = [], ResourceVersion = Some (Suc (Suc (revision w)))\<rparr>,
                      mr_Spec =
                        \<lparr>SecretRefs = [ManagedResourceName x],
                         InjectLabels = [(''shoot.gardener.cloud/no-cleanup'', ''true'')],
                         KeepObjects = Some False\<rparr>\<rparr>)
            \<and> revision (snd (Deploy x d ns w)) = Suc (Suc (revision w))
            \<and> requests (snd (Deploy x d ns w)) = requests w @
                 [(VCreate, (''Secret'', ns, ManagedResourceName x)),
                  (VCreate, (''ManagedResource'', ns, ManagedResourceName x))]
            \<and> exchanges (snd (Deploy x d ns w)) = exchanges w @
                 [(VCreate, (''Secret'', ns, ManagedResourceName x), None, None),
                  (VCreate, (''ManagedResource'', ns, ManagedResourceName x), None, None)])"
proof -
  let ?w1 = "snd (Deploy x d ns w)"
  let ?sk = "(''Secret'', ns, ManagedResourceName x)"
  let ?mk = "(''ManagedResource'', ns, ManagedResourceName x)"
  let ?S = "\<lambda>v. SecretObj
               \<lparr>secret_ObjectMeta =
                  \<lparr>Name = ManagedResourceName x, Namespace = ns, Labels = [],
                   Annotations = [(''resources.gardener.cloud/data-checksum'',
                                   ComputeSecretChecksum x resources)],
                   ResourceVersion = v\<rparr>,
                secret_Type = ''Opaque'', secret_Data = resources\<rparr>"
  let ?M = "\<lambda>v. ManagedResourceObj
               \<lparr>mr_ObjectMeta =
                  \<lparr>Name = ManagedResourceName x, Namespace = ns, Labels = [],
                   Annotations = [], ResourceVersion = v\<rparr>,
                mr_Spec =
                  \<lparr>SecretRefs = [ManagedResourceName x],
                   InjectLabels = [(''shoot.gardener.cloud/no-cleanup'', ''true'')],
                   KeepObjects = Some False\<rparr>\<rparr>"
  note first = Deploy_applies [of w x d resources ns, OF nf gen]
  have nf1: "\<And>v k. fault ?w1 v k = None"
    by (simp add: first(2) nf)
  have gen1: "fst (generateResources x d ?w1) = Inr resources"
    using gen generateResources_fst_indep [of x d ?w1 w] by simp
  note second = Deploy_applies [of ?w1 x d resources ns, OF nf1 gen1]
  obtain v1 where s1: "objects ?w1 ?sk = Some (?S v1)"
    using first(3) by blast
  obtain v2 where m1: "objects ?w1 ?mk = Some (?M v2)"
    using first(4) by blast
  have same: "objects (snd (Deploy x d ns ?w1)) = objects ?w1
            \<and> revision (snd (Deploy x d ns ?w1)) = revision ?w1
            \<and> requests (snd (Deploy x d ns ?w1)) = requests ?w1 @
                 [(VCreate, ?sk), (VGet, ?sk), (VUpdate, ?sk),
                  (VCreate, ?mk), (VGet, ?mk), (VUpdate, ?mk)]"
    by (rule mp [OF second(5) conjI [OF first(3) first(4)]])
  have seen: "exchanges (snd (Deploy x d ns ?w1)) = exchanges ?w1 @
                 [(VCreate, ?sk, None, Some AlreadyExists),
                  (VGet, ?sk, None, None),
                  (VUpdate, ?sk, v1, None),
                  (VCreate, ?mk, None, Some AlreadyExists),
                  (VGet, ?mk, None, None),
                  (VUpdate, ?mk, v2, None)]"
    by (rule mp [OF second(7) conjI [OF s1 m1]])
  have stored: "\<exists>v1 v2. objects ?w1 ?sk = Some (?S v1) \<and> objects ?w1 ?mk = Some (?M v2)
       \<and> exchanges (snd (Deploy x d ns ?w1)) = exchanges ?w1 @
                 [(VCreate, ?sk, None, Some AlreadyExists),
                  (VGet, ?sk, None, None),
                  (VUpdate, ?sk, v1, None),
                  (VCreate, ?mk, None, Some AlreadyExists),
                  (VGet, ?mk, None, None),
                  (VUpdate, ?mk, v2, None)]"
    using s1 m1 seen by (intro exI conjI)
  show ?thesis
    apply (intro conjI)
          apply (rule first(1))
         apply (rule stored)
        apply (rule second(1))
       apply (rule same [THEN conjunct1])
      apply (rule same [THEN conjunct2, THEN conjunct1])
     apply (rule same [THEN conjunct2, THEN conjunct2])
    apply (rule first(8))
    done
qed

theorem Deploy_idempotent_witness:
  "(\<forall>v k. fault empty_world v k = None)
   \<and> fst (generateResources example_externals
            (NewDeployer (DefaultConfig\<lparr>Image := ''custom:v1''\<rparr>) example_imageVector)
            empty_world)
       = Inr [(''serviceaccount.yaml'', ''ServiceAccount/traefik''),
              (''clusterrole.yaml'', ''ClusterRole/traefik-ingress-controller''),
              (''clusterrolebinding.yaml'', ''ClusterRoleBinding/traefik-ingress-controller''),
              (''deployment.yaml'', ''Deployment/traefik''),
              (''service.yaml'', ''Service/traefik''),
              (''ingressclass.yaml'', ''IngressClass/traefik''),
              (''networkpolicy.yaml'', ''NetworkPolicy/traefik-allow-ingress'')]
   \<and> fst (Deploy example_externals
            (NewDeployer (DefaultConfig\<lparr>Image := ''custom:v1''\<rparr>) example_imageVector)
            ''shoot--local--demo'' empty_world) = None
   \<and> exchanges (snd (Deploy example_externals
            (NewDeployer (DefaultConfig\<lparr>Image := ''custom:v1''\<rparr>) example_imageVector)
            ''shoot--local--demo'' empty_world)) =
       [(VCreate, (''Secret'', ''shoot--local--demo'', ''extension-shoot-traefik''), None, None),
        (VCreate, (''ManagedResource'', ''shoot--local--demo'', ''extension-shoot-traefik''),
           None, None)]
   \<and> fst (Deploy example_externals
            (NewDeployer (DefaultConfig\<lparr>Image := ''custom:v1''\<rparr>) example_imageVector)
            ''shoot--local--demo''
            (snd (Deploy example_externals
                   (NewDeployer (DefaultConfig\<lparr>Image := ''custom:v1''\<rparr>) example_imageVector)
                   ''shoot--local--demo'' empty_world))) = None
   \<and> exchanges (snd (Deploy example_externals
            (NewDeployer (DefaultConfig\<lparr>Image := ''custom:v1''\<rparr>) example_imageVector)
            ''shoot--local--demo''
            (snd (Deploy example_externals
                   (NewDeployer (DefaultConfig\<lparr>Image := ''custom:v1''\<rparr>) example_imageVector)
                   ''shoot--local--demo'' empty_world)))) =
       [(VCreate, (''Secret'', ''shoot--local--demo'', ''extension-shoot-traefik''), None, None),
        (VCreate, (''ManagedResource'', ''shoot--local--demo'', ''extension-shoot-traefik''),
           None, None),
        (VCreate, (''Secret'', ''shoot--local--demo'', ''extension-shoot-traefik''), None,
           Some AlreadyExists),
        (VGet, (''Secret'', ''shoot--local--demo'', ''extension-shoot-traefik''), None, None),
        (VUpdate, (''Secret'', ''shoot--local--demo'', ''extension-shoot-traefik''),
           Some 1, None),
        (VCreate, (''ManagedResource'', ''shoot--local--demo'', ''extension-shoot-traefik''),
           None, Some AlreadyExists),
        (VGet, (''ManagedResource'', ''shoot--local--demo'', ''extension-shoot-traefik''),
           None, None),
        (VUpdate, (''ManagedResource'', ''shoot--local--demo'', ''extension-shoot-traefik''),
           Some 2, None)]
   \<and> objects (snd (Deploy example_externals
            (NewDeployer (DefaultConfig\<lparr>Image := ''custom:v1''\<rparr>) example_imageVector)
            ''shoot--local--demo''
            (snd (Deploy example_externals
                   (NewDeployer (DefaultConfig\<lparr>Image := ''custom:v1''\<rparr>) example_imageVector)
                   ''shoot--local--demo'' empty_world))))
     = objects (snd (Deploy example_externals
            (NewDeployer (DefaultConfig\<lparr>Image := ''custom:v1''\<rparr>) example_imageVector)
            ''shoot--local--demo'' empty_world))
   \<and> revision (snd (Deploy example_externals
            (NewDeployer (DefaultConfig\<lparr>Image := ''custom:v1''\<rparr>) example_imageVector)
            ''shoot--local--demo''
            (snd (Deploy example_externals
                   (NewDeployer (DefaultConfig\<lparr>Image := ''custom:v1''\<rparr>) example_imageVector)
                   ''shoot--local--demo'' empty_world)))) = 2"
proof -
  let ?d = "NewDeployer (DefaultConfig\<lparr>Image := ''custom:v1''\<rparr>) example_imageVector"
  have nf: "\<And>v k. fault empty_world v k = None"
    by (simp add: empty_world_def)
  have gen: "fst (generateResources example_externals ?d empty_world)
       = Inr [(''serviceaccount.yaml'', ''ServiceAccount/traefik''),
              (''clusterrole.yaml'', ''ClusterRole/traefik-ingress-controller''),
              (''clusterrolebinding.yaml'', ''ClusterRoleBinding/traefik-ingress-controller''),
              (''deployment.yaml'', ''Deployment/traefik''),
              (''service.yaml'', ''Service/traefik''),
              (''ingressclass.yaml'', ''IngressClass/traefik''),
              (''networkpolicy.yaml'', ''NetworkPolicy/traefik-allow-ingress'')]"
    by (rule generateResources_example)
  have free: "objects empty_world
                (''Secret'', ''shoot--local--demo'', ''extension-shoot-traefik'') = None"
             "objects empty_world
                (''ManagedResource'', ''shoot--local--demo'', ''extension-shoot-traefik'') = None"
             "revision empty_world = 0" "exchanges empty_world = []"
    by (simp_all add: empty_world_def)
  have name: "ManagedResourceName example_externals = ''extension-shoot-traefik''"
    by (simp add: example_externals_def)
  show ?thesis
    using nf gen Deploy_idempotent [OF nf gen, of "''shoot--local--demo''"]
    by (auto simp: free name numeral_2_eq_2)
qed

section \<open>Provider variants\<close>

lemma deployment_container:
  assumes "deployment x d w = (Inr dep, w')"
  shows "map container_Image (Containers (template_Spec (Template (deployment_Spec dep)))) =
           [if Image (config d) = '''' then the (map_of (imageVector d) (ImageName x))
            else Image (config d)]"
    and "map Args (Containers (template_Spec (Template (deployment_Spec dep)))) =
           [[''--api.insecure=false'',
             ''--api.dashboard=false'',
             ''--ping=true'',
             ''--ping.entrypoint=web'',
             ''--metrics.prometheus=true'',
             ''--metrics.prometheus.entrypoint=metrics'',
             ''--entrypoints.web.address=:8000'',
             ''--entrypoints.websecure.address=:8443'',
             ''--entrypoints.metrics.address=:9100'',
             ''--log.level=INFO''] @
            (if IngressProvider (config d) = IngressProviderKubernetesIngressNGINX
             then [''--providers.kubernetesingressnginx=true'',
                   ''--providers.kubernetesingressnginx.ingressclass='' @ IngressClass (config d)]
             else [''--providers.kubernetesingress=true'',
                   ''--providers.kubernetesingress.ingressclass='' @ IngressClass (config d)])]"
    and "deployment_Replicas (deployment_Spec dep) = Some (Replicas (config d))"
  using assms
  by (auto simp: deployment_def FindImage_eq Let_def split: if_splits option.splits)

lemma providers_differ:
  "IngressProviderKubernetesIngress \<noteq> IngressProviderKubernetesIngressNGINX"
  by (simp add: IngressProviderKubernetesIngress_def IngressProviderKubernetesIngressNGINX_def)

lemma deployment_provider_fallback:
  "deployment x d w =
   deployment x (d\<lparr>config := (config d)\<lparr>IngressProvider :=
      (if IngressProvider (config d) = IngressProviderKubernetesIngressNGINX
       then IngressProviderKubernetesIngressNGINX else IngressProviderKubernetesIngress)\<rparr>\<rparr>) w"
proof (cases "IngressProvider (config d) = IngressProviderKubernetesIngressNGINX")
  case True
  have "d\<lparr>config := (config d)\<lparr>IngressProvider := IngressProviderKubernetesIngressNGINX\<rparr>\<rparr> = d"
    using True [symmetric] by simp
  then show ?thesis
    by (simp only: True if_True simp_thms)
next
  case False
  then show ?thesis
    by (simp add: deployment_def providers_differ Let_def FindImage_eq split: option.split)
qed

lemma clusterRole_provider_fallback:
  "clusterRole d =
   clusterRole (d\<lparr>config := (config d)\<lparr>IngressProvider :=
      (if IngressProvider (config d) = IngressProviderKubernetesIngressNGINX
       then IngressProviderKubernetesIngressNGINX else IngressProviderKubernetesIngress)\<rparr>\<rparr>)"
proof (cases "IngressProvider (config d) = IngressProviderKubernetesIngressNGINX")
  case True
  have "d\<lparr>config := (config d)\<lparr>IngressProvider := IngressProviderKubernetesIngressNGINX\<rparr>\<rparr> = d"
    using True [symmetric] by simp
  then show ?thesis
    by (simp only: True if_True simp_thms)
next
  case False
  then show ?thesis
    by (simp add: clusterRole_def providers_differ Let_def)
qed

lemma clusterRole_Rules:
  "Rules (clusterRole d) =
        [\<lparr>APIGroups = [''''],
          Resources = [''services'', ''endpoints'', ''secrets'', ''nodes''],
          Verbs = [''get'', ''list'', ''watch'']\<rparr>,
         \<lparr>APIGroups = [''discovery.k8s.io''],
          Resources = [''endpointslices''],
          Verbs = [''get'', ''list'', ''watch'']\<rparr>,
         \<lparr>APIGroups = [''extensions'', ''networking.k8s.io''],
          Resources = [''ingresses'', ''ingressclasses''],
          Verbs = [''get'', ''list'', ''watch'']\<rparr>,
         \<lparr>APIGroups = [''extensions'', ''networking.k8s.io''],
          Resources = [''ingresses/status''],
          Verbs = [''update'']\<rparr>,
         \<lparr>APIGroups = [''traefik.io''],
          Resources = [''*''],
          Verbs = [''get'', ''list'', ''watch'']\<rparr>] @
        (if IngressProvider (config d) = IngressProviderKubernetesIngressNGINX
         then [\<lparr>APIGroups = [''''], Resources = [''namespaces''],
                 Verbs = [''get'', ''list'', ''watch'']\<rparr>]
         else [])"
  by (simp add: clusterRole_def Let_def)

lemma deployment_with_image:
  assumes "Image (config d) \<noteq> ''''"
  shows "\<exists>dep. deployment x d w = (Inr dep, w)"
  using assms by (simp add: deployment_def Let_def)

lemma deployment_without_image:
  assumes "Image (config d) = ''''" and "map_of (imageVector d) (ImageName x) = None"
  shows "deployment x d w =
     (Inl (Errorf ''failed to find traefik image in image vector: %w''
             (ImageNotFound (ImageName x))),
      w\<lparr>lookups := lookups w @ [ImageName x]\<rparr>)"
  using assms by (simp add: deployment_def FindImage_eq Let_def)

lemma generateResources_snd_eq:
  "snd (generateResources x d w) =
     (if isl (Encode x (ServiceAccountM (serviceAccount x d)))
         \<or> isl (Encode x (ClusterRoleM (clusterRole d)))
         \<or> isl (Encode x (ClusterRoleBindingM (clusterRoleBinding x d)))
      then w else snd (deployment x d w))"
  by (cases "deployment x d w")
     (simp add: generateResources_def Let_def split: sum.split)

text \<open>
  C2. The provider selects exactly one watch mode. In a deployment that was built, the
  one container's arguments hold the standard flag \<open>--providers.kubernetesingress=true\<close>
  and its ingress-class flag exactly when the provider is not \<open>KubernetesIngressNGINX\<close>,
  and the NGINX-compatible flag \<open>--providers.kubernetesingressnginx=true\<close> and its
  ingress-class flag exactly when it is; the class flag carries the configured ingress
  class, and no class flag of the other mode occurs with any class. The cluster role has
  the rule that reads namespaces exactly for the NGINX provider. An empty or unknown
  provider builds what \<open>KubernetesIngress\<close> builds.
\<close>

theorem provider_selects_one_watch_mode:
  assumes "deployment x d w = (Inr dep, w')"
  shows "\<exists>args. map Args (Containers (template_Spec (Template (deployment_Spec dep)))) = [args]
     \<and> (''--providers.kubernetesingress=true'' \<in> set args)
         = (IngressProvider (config d) \<noteq> IngressProviderKubernetesIngressNGINX)
     \<and> (''--providers.kubernetesingress.ingressclass='' @ IngressClass (config d) \<in> set args)
         = (IngressProvider (config d) \<noteq> IngressProviderKubernetesIngressNGINX)
     \<and> (\<exists>c. ''--providers.kubernetesingress.ingressclass='' @ c \<in> set args)
         = (IngressProvider (config d) \<noteq> IngressProviderKubernetesIngressNGINX)
     \<and> (''--providers.kubernetesingressnginx=true'' \<in> set args)
         = (IngressProvider (config d) = IngressProviderKubernetesIngressNGINX)
     \<and> (''--providers.kubernetesingressnginx.ingressclass='' @ IngressClass (config d) \<in> set args)
         = (IngressProvider (config d) = IngressProviderKubernetesIngressNGINX)
     \<and> (\<exists>c. ''--providers.kubernetesingressnginx.ingressclass='' @ c \<in> set args)
         = (IngressProvider (config d) = IngressProviderKubernetesIngressNGINX)
     \<and> (''--providers.kubernetesingress=true'' \<in> set args)
         = (''--providers.kubernetesingressnginx=true'' \<notin> set args)
     \<and> (\<lparr>APIGroups = [''''], Resources = [''namespaces''],
          Verbs = [''get'', ''list'', ''watch'']\<rparr> \<in> set (Rules (clusterRole d)))
         = (IngressProvider (config d) = IngressProviderKubernetesIngressNGINX)
     \<and> list_ex (\<lambda>r. ''namespaces'' \<in> set (Resources r)) (Rules (clusterRole d))
         = (IngressProvider (config d) = IngressProviderKubernetesIngressNGINX)
     \<and> deployment x d w =
         deployment x (d\<lparr>config := (config d)\<lparr>IngressProvider :=
            (if IngressProvider (config d) = IngressProviderKubernetesIngressNGINX
             then IngressProviderKubernetesIngressNGINX
             else IngressProviderKubernetesIngress)\<rparr>\<rparr>) w
     \<and> clusterRole d =
         clusterRole (d\<lparr>config := (config d)\<lparr>IngressProvider :=
            (if IngressProvider (config d) = IngressProviderKubernetesIngressNGINX
             then IngressProviderKubernetesIngressNGINX
             else IngressProviderKubernetesIngress)\<rparr>\<rparr>)"
proof -
  let ?nginx = "IngressProvider (config d) = IngressProviderKubernetesIngressNGINX"
  let ?args = "[''--api.insecure=false'',
             ''--api.dashboard=false'',
             ''--ping=true'',
             ''--ping.entrypoint=web'',
             ''--metrics.prometheus=true'',
             ''--metrics.prometheus.entrypoint=metrics'',
             ''--entrypoints.web.address=:8000'',
             ''--entrypoints.websecure.address=:8443'',
             ''--entrypoints.metrics.address=:9100'',
             ''--log.level=INFO''] @
            (if ?nginx
             then [''--providers.kubernetesingressnginx=true'',
                   ''--providers.kubernetesingressnginx.ingressclass='' @ IngressClass (config d)]
             else [''--providers.kubernetesingress=true'',
                   ''--providers.kubernetesingress.ingressclass='' @ IngressClass (config d)])"
  have m: "map Args (Containers (template_Spec (Template (deployment_Spec dep)))) = [?args]"
    by (rule deployment_container(2) [OF assms])
  have a1: "(''--providers.kubernetesingress=true'' \<in> set ?args) = (\<not> ?nginx)"
    by simp
  have a2: "(''--providers.kubernetesingress.ingressclass='' @ IngressClass (config d) \<in> set ?args)
            = (\<not> ?nginx)"
    by simp
  have a3: "(\<exists>c. ''--providers.kubernetesingress.ingressclass='' @ c \<in> set ?args) = (\<not> ?nginx)"
    by simp
  have a4: "(''--providers.kubernetesingressnginx=true'' \<in> set ?args) = ?nginx"
    by simp
  have a5: "(''--providers.kubernetesingressnginx.ingressclass='' @ IngressClass (config d) \<in> set ?args)
            = ?nginx"
    by simp
  have a6: "(\<exists>c. ''--providers.kubernetesingressnginx.ingressclass='' @ c \<in> set ?args) = ?nginx"
    by simp
  have a7: "(''--providers.kubernetesingress=true'' \<in> set ?args)
            = (''--providers.kubernetesingressnginx=true'' \<notin> set ?args)"
    by simp
  have r1: "(\<lparr>APIGroups = [''''], Resources = [''namespaces''],
          Verbs = [''get'', ''list'', ''watch'']\<rparr> \<in> set (Rules (clusterRole d))) = ?nginx"
    by (simp add: clusterRole_Rules)
  have r2: "list_ex (\<lambda>r. ''namespaces'' \<in> set (Resources r)) (Rules (clusterRole d)) = ?nginx"
    by (simp add: clusterRole_Rules)
  show ?thesis
    apply (rule exI [of _ ?args])
    apply (intro conjI)
    apply (rule m a1 a2 a3 a4 a5 a6 a7 r1 r2 deployment_provider_fallback
                clusterRole_provider_fallback)+
    done
qed

theorem provider_selects_one_watch_mode_witness:
  "(\<exists>dep w'.
      deployment example_externals
        (NewDeployer (DefaultConfig\<lparr>Image := ''custom:v1'', IngressProvider := ''''\<rparr>)
           example_imageVector) empty_world = (Inr dep, w')
      \<and> (\<exists>args. map Args (Containers (template_Spec (Template (deployment_Spec dep)))) = [args]
            \<and> ''--providers.kubernetesingress=true'' \<in> set args
            \<and> ''--providers.kubernetesingress.ingressclass=traefik'' \<in> set args
            \<and> ''--providers.kubernetesingressnginx=true'' \<notin> set args))
   \<and> \<not> list_ex (\<lambda>r. ''namespaces'' \<in> set (Resources r))
         (Rules (clusterRole
            (NewDeployer (DefaultConfig\<lparr>Image := ''custom:v1'', IngressProvider := ''''\<rparr>)
               example_imageVector)))
   \<and> (\<exists>dep w'.
      deployment example_externals
        (NewDeployer (DefaultConfig\<lparr>IngressClass := ''nginx'',
            IngressProvider := IngressProviderKubernetesIngressNGINX\<rparr>)
           example_imageVector) empty_world = (Inr dep, w')
      \<and> (\<exists>args. map Args (Containers (template_Spec (Template (deployment_Spec dep)))) = [args]
            \<and> ''--providers.kubernetesingressnginx=true'' \<in> set args
            \<and> ''--providers.kubernetesingressnginx.ingressclass=nginx'' \<in> set args
            \<and> ''--providers.kubernetesingress=true'' \<notin> set args))
   \<and> list_ex (\<lambda>r. ''namespaces'' \<in> set (Resources r))
         (Rules (clusterRole
            (NewDeployer (DefaultConfig\<lparr>IngressClass := ''nginx'',
                IngressProvider := IngressProviderKubernetesIngressNGINX\<rparr>)
               example_imageVector)))"
proof -
  let ?d1 = "NewDeployer (DefaultConfig\<lparr>Image := ''custom:v1'', IngressProvider := ''''\<rparr>)
               example_imageVector"
  let ?d2 = "NewDeployer (DefaultConfig\<lparr>IngressClass := ''nginx'',
                IngressProvider := IngressProviderKubernetesIngressNGINX\<rparr>)
               example_imageVector"
  have p1: "IngressProvider (config ?d1) \<noteq> IngressProviderKubernetesIngressNGINX"
   and c1: "IngressClass (config ?d1) = ''traefik''"
   and p2: "IngressProvider (config ?d2) = IngressProviderKubernetesIngressNGINX"
   and c2: "IngressClass (config ?d2) = ''nginx''"
    by (simp_all add: NewDeployer_def DefaultConfig_def IngressProviderKubernetesIngressNGINX_def)
  obtain dep1 where e1: "deployment example_externals ?d1 empty_world = (Inr dep1, empty_world)"
    using deployment_with_image [of ?d1 example_externals empty_world]
    by (auto simp: NewDeployer_def DefaultConfig_def)
  obtain dep2 w2 where e2: "deployment example_externals ?d2 empty_world = (Inr dep2, w2)"
    by (cases "deployment example_externals ?d2 empty_world")
       (auto simp: deployment_def FindImage_eq NewDeployer_def DefaultConfig_def
          example_externals_def example_imageVector_def Let_def)
  show ?thesis
    using provider_selects_one_watch_mode [OF e1] provider_selects_one_watch_mode [OF e2]
    unfolding p2 c1 c2 using p1 e1 e2 by auto
qed

section \<open>Names of the cluster-scoped resources\<close>

text \<open>
  The claim C4, that the name of the ingress class does not depend on the configuration,
  fails: the default configuration and one with the ingress class \<open>nginx\<close> give
  ingress classes of different names.
\<close>

theorem ingressClass_counterexample:
  "Name (ic_ObjectMeta (ingressClass (NewDeployer DefaultConfig example_imageVector)))
   \<noteq> Name (ic_ObjectMeta (ingressClass
         (NewDeployer (DefaultConfig\<lparr>IngressClass := ''nginx''\<rparr>) example_imageVector)))"
  by (simp add: ingressClass_def NewDeployer_def DefaultConfig_def)

text \<open>
  C4, as amended. The ingress class is cluster-scoped and named by the configuration's
  ingress class: two configurations give ingress classes of the same name exactly when
  their ingress classes agree, whatever the target namespace, image, replicas and
  provider.
\<close>

theorem ingressClass_named_by_config:
  "Name (ic_ObjectMeta (ingressClass d)) = IngressClass (config d)
   \<and> Namespace (ic_ObjectMeta (ingressClass d)) = ''''"
  by (simp add: ingressClass_def)

section \<open>Image selection\<close>

text \<open>
  C8. With an image in the configuration, \<open>deployment\<close> succeeds with that very
  string as the image of its one container and returns the world it was given, so the
  image vector has not been asked; neither has it been by \<open>generateResources\<close>, and
  the deployment built does not depend on the image vector at all.
\<close>

theorem configured_image_used_verbatim:
  assumes "Image (config d) \<noteq> ''''"
  shows "(\<exists>dep. deployment x d w = (Inr dep, w)
           \<and> map container_Image (Containers (template_Spec (Template (deployment_Spec dep))))
               = [Image (config d)])
     \<and> snd (generateResources x d w) = w
     \<and> lookups (snd (generateResources x d w)) = lookups w
     \<and> deployment x (d\<lparr>imageVector := iv\<rparr>) w = deployment x d w"
proof -
  obtain dep where dep: "deployment x d w = (Inr dep, w)"
    using deployment_with_image [OF assms] by blast
  have img: "map container_Image (Containers (template_Spec (Template (deployment_Spec dep))))
               = [Image (config d)]"
    using deployment_container(1) [OF dep] assms by simp
  have world: "snd (generateResources x d w) = w"
    by (simp add: generateResources_snd_eq dep)
  have indep: "deployment x (d\<lparr>imageVector := iv\<rparr>) w = deployment x d w"
    using assms by (simp add: deployment_def Let_def)
  show ?thesis
    using dep img world indep by simp
qed

theorem configured_image_used_verbatim_witness:
  "Image (config (NewDeployer (DefaultConfig\<lparr>Image := ''custom:v1''\<rparr>) [])) \<noteq> ''''
   \<and> (\<exists>dep. deployment example_externals
                (NewDeployer (DefaultConfig\<lparr>Image := ''custom:v1''\<rparr>) []) empty_world
              = (Inr dep, empty_world)
           \<and> map container_Image (Containers (template_Spec (Template (deployment_Spec dep))))
               = [''custom:v1''])
   \<and> lookups (snd (generateResources example_externals
                (NewDeployer (DefaultConfig\<lparr>Image := ''custom:v1''\<rparr>) []) empty_world)) = []"
proof -
  have img: "Image (config (NewDeployer (DefaultConfig\<lparr>Image := ''custom:v1''\<rparr>) [])) = ''custom:v1''"
    by (simp add: NewDeployer_def)
  have ne: "Image (config (NewDeployer (DefaultConfig\<lparr>Image := ''custom:v1''\<rparr>) [])) \<noteq> ''''"
    by (simp add: img)
  show ?thesis
    using configured_image_used_verbatim [OF ne, of example_externals empty_world]
    by (simp add: img empty_world_def)
qed

section \<open>Reconciliation gates\<close>

lemma GetCluster_found:
  assumes "fault w VGet (''Cluster'', '''', n) = None" and "clusters w n = Some c"
  shows "GetCluster n w = (Inr c, request VGet (''Cluster'', '''', n) w)"
  using assms by (simp add: GetCluster_def Let_def)

lemma Reconcile_hibernated:
  assumes f: "fault w VGet (''Cluster'', '''', ex_Namespace ex) = None"
      and c: "clusters w (ex_Namespace ex) = Some cluster"
      and h: "HibernationIsEnabled (cluster_Shoot cluster)"
  shows "Reconcile x a ex w =
     (None, logger_Info ''shoot is hibernated, skipping traefik deployment''
              (request VGet (''Cluster'', '''', ex_Namespace ex)
                 (logger_Info ''reconciling traefik extension'' w)))"
proof -
  have "GetCluster (ex_Namespace ex) (logger_Info ''reconciling traefik extension'' w) =
          (Inr cluster, request VGet (''Cluster'', '''', ex_Namespace ex)
                          (logger_Info ''reconciling traefik extension'' w))"
    by (rule GetCluster_found) (simp_all add: f c)
  then show ?thesis
    using h by (simp add: Reconcile_def Let_def)
qed

lemma Reconcile_refused:
  assumes f: "fault w VGet (''Cluster'', '''', ex_Namespace ex) = None"
      and c: "clusters w (ex_Namespace ex) = Some cluster"
      and h: "\<not> HibernationIsEnabled (cluster_Shoot cluster)"
      and p: "Purpose (cluster_Shoot cluster) \<noteq> Some ShootPurposeEvaluation"
  shows "Reconcile x a ex w =
     (Some (Errorf (''%w: got purpose '' @ [CHR 0x27] @
                      (case Purpose (cluster_Shoot cluster) of None \<Rightarrow> ''nil'' | Some p \<Rightarrow> p)
                      @ [CHR 0x27])
              ErrShootPurposeNotEvaluation),
      logger_Error ''shoot purpose validation failed''
        (request VGet (''Cluster'', '''', ex_Namespace ex)
           (logger_Info ''reconciling traefik extension'' w)))"
proof -
  have "GetCluster (ex_Namespace ex) (logger_Info ''reconciling traefik extension'' w) =
          (Inr cluster, request VGet (''Cluster'', '''', ex_Namespace ex)
                          (logger_Info ''reconciling traefik extension'' w))"
    by (rule GetCluster_found) (simp_all add: f c)
  then show ?thesis
    using h p by (simp add: Reconcile_def Let_def)
qed

lemma Reconcile_decode_failed:
  assumes f: "fault w VGet (''Cluster'', '''', ex_Namespace ex) = None"
      and c: "clusters w (ex_Namespace ex) = Some cluster"
      and h: "\<not> HibernationIsEnabled (cluster_Shoot cluster)"
      and p: "Purpose (cluster_Shoot cluster) = Some ShootPurposeEvaluation"
      and r: "ProviderConfig ex = Some raw"
      and e: "DecodeInto (decoder a) raw = Inl err"
  shows "Reconcile x a ex w =
     (case Deploy x (NewDeployer DefaultConfig (actuator_imageVector a)) (ex_Namespace ex)
             (logger_Error ''failed to decode provider config, using defaults''
                (request VGet (''Cluster'', '''', ex_Namespace ex)
                   (logger_Info ''reconciling traefik extension'' w))) of
        (Some err, w3) \<Rightarrow> (Some (Errorf ''failed to deploy traefik: %w'' err), w3)
      | (None, w3) \<Rightarrow> (None, logger_Info ''successfully reconciled traefik extension'' w3))"
proof -
  have "GetCluster (ex_Namespace ex) (logger_Info ''reconciling traefik extension'' w) =
          (Inr cluster, request VGet (''Cluster'', '''', ex_Namespace ex)
                          (logger_Info ''reconciling traefik extension'' w))"
    by (rule GetCluster_found) (simp_all add: f c)
  then show ?thesis
    using h p r e by (simp add: Reconcile_def Let_def)
qed

text \<open>
  C10. For a hibernated shoot \<open>Reconcile\<close> returns success at once, whatever the
  shoot's purpose: it has read the cluster and logged two lines, and has neither asked
  the image vector nor sent the store any other request.
\<close>

theorem hibernated_shoot_is_skipped:
  assumes f: "fault w VGet (''Cluster'', '''', ex_Namespace ex) = None"
      and c: "clusters w (ex_Namespace ex) = Some cluster"
      and h: "HibernationIsEnabled (cluster_Shoot cluster)"
  shows "fst (Reconcile x a ex w) = None
     \<and> objects (snd (Reconcile x a ex w)) = objects w
     \<and> revision (snd (Reconcile x a ex w)) = revision w
     \<and> lookups (snd (Reconcile x a ex w)) = lookups w
     \<and> requests (snd (Reconcile x a ex w)) =
         requests w @ [(VGet, (''Cluster'', '''', ex_Namespace ex))]
     \<and> logged (snd (Reconcile x a ex w)) =
         logged w @ [(LevelInfo, ''reconciling traefik extension''),
                     (LevelInfo, ''shoot is hibernated, skipping traefik deployment'')]"
  by (simp add: Reconcile_hibernated [OF f c h])

theorem hibernated_shoot_is_skipped_witness:
  "HibernationIsEnabled \<lparr>Purpose = Some ''production'', HibernationEnabled = Some True\<rparr>
   \<and> Purpose \<lparr>Purpose = Some ''production'', HibernationEnabled = Some True\<rparr>
       \<noteq> Some ShootPurposeEvaluation
   \<and> fst (Reconcile example_externals example_actuator (example_extension None)
            (seed_world \<lparr>Purpose = Some ''production'', HibernationEnabled = Some True\<rparr>)) = None
   \<and> requests (snd (Reconcile example_externals example_actuator (example_extension None)
            (seed_world \<lparr>Purpose = Some ''production'', HibernationEnabled = Some True\<rparr>)))
       = [(VGet, (''Cluster'', '''', ''shoot--local--demo''))]
   \<and> lookups (snd (Reconcile example_externals example_actuator (example_extension None)
            (seed_world \<lparr>Purpose = Some ''production'', HibernationEnabled = Some True\<rparr>))) = []"
  using hibernated_shoot_is_skipped
    [of "seed_world \<lparr>Purpose = Some ''production'', HibernationEnabled = Some True\<rparr>"
        "example_extension None"
        "\<lparr>cluster_Shoot = \<lparr>Purpose = Some ''production'', HibernationEnabled = Some True\<rparr>\<rparr>"
        example_externals example_actuator]
  by (simp add: seed_world_def empty_world_def example_extension_def HibernationIsEnabled_def
        ShootPurposeEvaluation_def)

text \<open>
  The claim C5, that reconciliation aborts with an error for every shoot whose purpose
  is not \<open>evaluation\<close>, fails for a hibernated shoot: hibernation is checked first.
\<close>

theorem purpose_gate_counterexample:
  "Purpose \<lparr>Purpose = Some ''production'', HibernationEnabled = Some True\<rparr>
       \<noteq> Some ShootPurposeEvaluation
   \<and> clusters (seed_world \<lparr>Purpose = Some ''production'', HibernationEnabled = Some True\<rparr>)
        (ex_Namespace (example_extension None))
       = Some \<lparr>cluster_Shoot = \<lparr>Purpose = Some ''production'', HibernationEnabled = Some True\<rparr>\<rparr>
   \<and> fst (Reconcile example_externals example_actuator (example_extension None)
            (seed_world \<lparr>Purpose = Some ''production'', HibernationEnabled = Some True\<rparr>)) = None"
  using Reconcile_hibernated
    [of "seed_world \<lparr>Purpose = Some ''production'', HibernationEnabled = Some True\<rparr>"
        "example_extension None"
        "\<lparr>cluster_Shoot = \<lparr>Purpose = Some ''production'', HibernationEnabled = Some True\<rparr>\<rparr>"
        example_externals example_actuator]
  by (simp add: seed_world_def empty_world_def example_extension_def HibernationIsEnabled_def
        ShootPurposeEvaluation_def)

text \<open>
  C5, as amended. For a shoot whose purpose is absent or is not \<open>evaluation\<close>,
  \<open>Reconcile\<close> aborts with \<open>ErrShootPurposeNotEvaluation\<close> unless the shoot is
  hibernated, in which case it returns success. Either way nothing is built or applied:
  the read of the cluster is the only request the store receives, and the image vector is
  not asked.
\<close>

theorem purpose_gate:
  assumes f: "fault w VGet (''Cluster'', '''', ex_Namespace ex) = None"
      and c: "clusters w (ex_Namespace ex) = Some cluster"
      and p: "Purpose (cluster_Shoot cluster) \<noteq> Some ShootPurposeEvaluation"
  shows "fst (Reconcile x a ex w) =
           (if HibernationIsEnabled (cluster_Shoot cluster) then None
            else Some (Errorf (''%w: got purpose '' @ [CHR 0x27] @
                        (case Purpose (cluster_Shoot cluster) of None \<Rightarrow> ''nil'' | Some p \<Rightarrow> p)
                        @ [CHR 0x27])
                       ErrShootPurposeNotEvaluation))
     \<and> objects (snd (Reconcile x a ex w)) = objects w
     \<and> revision (snd (Reconcile x a ex w)) = revision w
     \<and> lookups (snd (Reconcile x a ex w)) = lookups w
     \<and> requests (snd (Reconcile x a ex w)) =
         requests w @ [(VGet, (''Cluster'', '''', ex_Namespace ex))]"
proof (cases "HibernationIsEnabled (cluster_Shoot cluster)")
  case True
  then show ?thesis
    by (simp add: Reconcile_hibernated [OF f c True])
next
  case False
  then show ?thesis
    by (simp add: Reconcile_refused [OF f c False p])
qed

theorem purpose_gate_witness:
  "Purpose \<lparr>Purpose = None, HibernationEnabled = None\<rparr> \<noteq> Some ShootPurposeEvaluation
   \<and> fst (Reconcile example_externals example_actuator (example_extension None)
            (seed_world \<lparr>Purpose = None, HibernationEnabled = None\<rparr>))
       = Some (Errorf (''%w: got purpose '' @ [CHR 0x27] @ ''nil'' @ [CHR 0x27])
                 ErrShootPurposeNotEvaluation)
   \<and> requests (snd (Reconcile example_externals example_actuator (example_extension None)
            (seed_world \<lparr>Purpose = None, HibernationEnabled = None\<rparr>)))
       = [(VGet, (''Cluster'', '''', ''shoot--local--demo''))]
   \<and> lookups (snd (Reconcile example_externals example_actuator (example_extension None)
            (seed_world \<lparr>Purpose = None, HibernationEnabled = None\<rparr>))) = []
   \<and> objects (snd (Reconcile example_externals example_actuator (example_extension None)
            (seed_world \<lparr>Purpose = None, HibernationEnabled = None\<rparr>))) = Map.empty"
  using purpose_gate
    [of "seed_world \<lparr>Purpose = None, HibernationEnabled = None\<rparr>"
        "example_extension None"
        "\<lparr>cluster_Shoot = \<lparr>Purpose = None, HibernationEnabled = None\<rparr>\<rparr>"
        example_externals example_actuator]
  by (simp add: seed_world_def empty_world_def example_extension_def HibernationIsEnabled_def)

section \<open>Image resolution failure\<close>

lemma deployment_found:
  assumes "Image (config d) = ''''" and "map_of (imageVector d) (ImageName x) = Some img"
  shows "\<exists>dep. deployment x d w = (Inr dep, w\<lparr>lookups := lookups w @ [ImageName x]\<rparr>)"
  using assms by (simp add: deployment_def FindImage_eq Let_def)

lemma generateResources_example_builds:
  assumes "Image (config d) \<noteq> '''' \<or> map_of (imageVector d) ''traefik'' \<noteq> None"
  shows "\<not> isl (fst (generateResources example_externals d w))"
proof -
  have "\<exists>dep w'. deployment example_externals d w = (Inr dep, w')"
  proof (cases "Image (config d) = ''''")
    case True
    then obtain img where "map_of (imageVector d) (ImageName example_externals) = Some img"
      using assms by (auto simp: example_externals_def)
    then show ?thesis
      using deployment_found [OF True, of example_externals img w] by blast
  next
    case False
    then show ?thesis
      using deployment_with_image [of d example_externals w] by blast
  qed
  then obtain dep w' where dep: "deployment example_externals d w = (Inr dep, w')"
    by blast
  have enc: "Encode example_externals = example_Encode"
    by (simp add: example_externals_def)
  show ?thesis
    by (simp add: generateResources_def dep enc Let_def)
qed

text \<open>
  C9. With no image in the configuration and no entry for \<open>ImageName\<close> in the image
  vector, \<open>deployment\<close> fails with the image vector's error, \<open>generateResources\<close>
  returns an error and no map of resources (with the three objects before the deployment
  encoded, the error is that of the image lookup), and \<open>Deploy\<close> returns that error
  wrapped, having sent the store no request at all: its objects and its revision are as
  before.
\<close>

theorem missing_image_fails_build:
  assumes "Image (config d) = ''''" and "map_of (imageVector d) (ImageName x) = None"
  shows "deployment x d w =
           (Inl (Errorf ''failed to find traefik image in image vector: %w''
                   (ImageNotFound (ImageName x))),
            w\<lparr>lookups := lookups w @ [ImageName x]\<rparr>)
     \<and> isl (fst (generateResources x d w))
     \<and> (\<not> isl (Encode x (ServiceAccountM (serviceAccount x d)))
          \<and> \<not> isl (Encode x (ClusterRoleM (clusterRole d)))
          \<and> \<not> isl (Encode x (ClusterRoleBindingM (clusterRoleBinding x d)))
         \<longrightarrow> fst (generateResources x d w) =
                Inl (Errorf ''failed to create deployment: %w''
                      (Errorf ''failed to find traefik image in image vector: %w''
                         (ImageNotFound (ImageName x)))))
     \<and> (\<exists>err. fst (generateResources x d w) = Inl err
              \<and> fst (Deploy x d ns w) =
                  Some (Errorf ''failed to generate traefik resources: %w'' err))
     \<and> objects (snd (Deploy x d ns w)) = objects w
     \<and> revision (snd (Deploy x d ns w)) = revision w
     \<and> requests (snd (Deploy x d ns w)) = requests w"
proof -
  have dep: "\<And>w. deployment x d w =
           (Inl (Errorf ''failed to find traefik image in image vector: %w''
                   (ImageNotFound (ImageName x))),
            w\<lparr>lookups := lookups w @ [ImageName x]\<rparr>)"
    by (rule deployment_without_image [OF assms])
  have fails: "isl (fst (generateResources x d w))"
    by (simp add: generateResources_def dep Let_def split: sum.split)
  have exact: "\<not> isl (Encode x (ServiceAccountM (serviceAccount x d)))
          \<and> \<not> isl (Encode x (ClusterRoleM (clusterRole d)))
          \<and> \<not> isl (Encode x (ClusterRoleBindingM (clusterRoleBinding x d)))
         \<longrightarrow> fst (generateResources x d w) =
                Inl (Errorf ''failed to create deployment: %w''
                      (Errorf ''failed to find traefik image in image vector: %w''
                         (ImageNotFound (ImageName x))))"
    by (simp add: generateResources_def dep Let_def split: sum.split)
  let ?w0 = "logger_Info ''deploying traefik to shoot cluster'' w"
  obtain err where err: "fst (generateResources x d w) = Inl err"
    using fails by (cases "fst (generateResources x d w)") simp_all
  obtain w1 where g: "generateResources x d ?w0 = (Inl err, w1)"
    using err generateResources_fst_indep [of x d ?w0 w]
    by (cases "generateResources x d ?w0") simp
  have w1: "objects w1 = objects w" "revision w1 = revision w" "requests w1 = requests w"
    using generateResources_fields [of x d ?w0] by (simp_all add: g)
  have D: "Deploy x d ns w = (Some (Errorf ''failed to generate traefik resources: %w'' err), w1)"
    by (simp add: Deploy_def g)
  show ?thesis
    using dep [of w] fails exact err by (simp add: D w1)
qed

theorem missing_image_fails_build_witness:
  "Image (config (NewDeployer DefaultConfig [])) = ''''
   \<and> map_of (imageVector (NewDeployer DefaultConfig [])) (ImageName example_externals) = None
   \<and> fst (generateResources example_externals (NewDeployer DefaultConfig []) empty_world) =
        Inl (Errorf ''failed to create deployment: %w''
              (Errorf ''failed to find traefik image in image vector: %w''
                 (ImageNotFound ''traefik'')))
   \<and> fst (Deploy example_externals (NewDeployer DefaultConfig []) ''shoot--local--demo''
            empty_world) =
        Some (Errorf ''failed to generate traefik resources: %w''
               (Errorf ''failed to create deployment: %w''
                 (Errorf ''failed to find traefik image in image vector: %w''
                    (ImageNotFound ''traefik''))))
   \<and> requests (snd (Deploy example_externals (NewDeployer DefaultConfig [])
                       ''shoot--local--demo'' empty_world)) = []
   \<and> objects (snd (Deploy example_externals (NewDeployer DefaultConfig [])
                      ''shoot--local--demo'' empty_world)) = Map.empty"
proof -
  have i: "Image (config (NewDeployer DefaultConfig [])) = ''''"
   and m: "map_of (imageVector (NewDeployer DefaultConfig [])) (ImageName example_externals) = None"
    by (simp_all add: NewDeployer_def DefaultConfig_def)
  have e: "Encode example_externals = example_Encode"
   and n: "ImageName example_externals = ''traefik''"
    by (simp_all add: example_externals_def)
  show ?thesis
    using i m missing_image_fails_build [OF i m, of empty_world "''shoot--local--demo''"]
    by (auto simp: e n empty_world_def)
qed

section \<open>Configuration resolution\<close>

text \<open>
  The claim C6, that every override field that is present and not zero replaces the
  default, fails for the replicas: a negative override is not zero and yet keeps the
  default of two replicas.
\<close>

theorem applyCustomConfiguration_counterexample:
  "spec_Replicas (Spec \<lparr>Spec = \<lparr>spec_Image = '''', spec_Replicas = - 1, spec_IngressClass = '''',
                               spec_IngressProvider = ''''\<rparr>\<rparr>) \<noteq> 0
   \<and> Replicas DefaultConfig = 2
   \<and> Replicas (applyCustomConfiguration DefaultConfig
        \<lparr>Spec = \<lparr>spec_Image = '''', spec_Replicas = - 1, spec_IngressClass = '''',
                  spec_IngressProvider = ''''\<rparr>\<rparr>) = 2"
  by (simp add: applyCustomConfiguration_def DefaultConfig_def Let_def)

text \<open>
  C6, as amended. Applying a decoded provider configuration replaces the image, the
  ingress class and the provider exactly when the override's string is not empty, and
  the replicas exactly when the override's number is positive (signed comparison on 32
  bits); every other field keeps its value. On the defaults, the override with ingress
  class \<open>nginx\<close> and provider \<open>KubernetesIngressNGINX\<close> gives two replicas, ingress
  class \<open>nginx\<close> and that provider.
\<close>

theorem applyCustomConfiguration_fields:
  "applyCustomConfiguration base cfg =
     \<lparr>Image = (if spec_Image (Spec cfg) \<noteq> '''' then spec_Image (Spec cfg) else Image base),
      Replicas = (if 0 <s spec_Replicas (Spec cfg) then spec_Replicas (Spec cfg)
                  else Replicas base),
      IngressClass = (if spec_IngressClass (Spec cfg) \<noteq> '''' then spec_IngressClass (Spec cfg)
                      else IngressClass base),
      IngressProvider = (if spec_IngressProvider (Spec cfg) \<noteq> ''''
                         then spec_IngressProvider (Spec cfg) else IngressProvider base)\<rparr>
   \<and> applyCustomConfiguration DefaultConfig
        \<lparr>Spec = \<lparr>spec_Image = '''', spec_Replicas = 0, spec_IngressClass = ''nginx'',
                  spec_IngressProvider = IngressProviderKubernetesIngressNGINX\<rparr>\<rparr> =
       \<lparr>Image = '''', Replicas = 2, IngressClass = ''nginx'',
        IngressProvider = IngressProviderKubernetesIngressNGINX\<rparr>"
  by (simp add: applyCustomConfiguration_def DefaultConfig_def Let_def
        IngressProviderKubernetesIngressNGINX_def)

section \<open>Decoding failure\<close>

lemma Reconcile_decode_failed_applies:
  assumes f: "fault w VGet (''Cluster'', '''', ex_Namespace ex) = None"
      and c: "clusters w (ex_Namespace ex) = Some cluster"
      and h: "\<not> HibernationIsEnabled (cluster_Shoot cluster)"
      and p: "Purpose (cluster_Shoot cluster) = Some ShootPurposeEvaluation"
      and r: "ProviderConfig ex = Some raw"
      and e: "DecodeInto (decoder a) raw = Inl err"
      and nf: "\<forall>v k. fault w v k = None"
      and ok: "\<not> isl (fst (generateResources x
                  (NewDeployer DefaultConfig (actuator_imageVector a)) w))"
  shows "fst (Reconcile x a ex w) = None"
    and "logged (snd (Reconcile x a ex w)) =
               logged w @ [(LevelInfo, ''reconciling traefik extension''),
                           (LevelError, ''failed to decode provider config, using defaults''),
                           (LevelInfo, ''deploying traefik to shoot cluster''),
                           (LevelInfo, ''successfully deployed traefik''),
                           (LevelInfo, ''successfully reconciled traefik extension'')]"
proof -
  let ?d = "NewDeployer DefaultConfig (actuator_imageVector a)"
  let ?w2 = "logger_Error ''failed to decode provider config, using defaults''
                (request VGet (''Cluster'', '''', ex_Namespace ex)
                   (logger_Info ''reconciling traefik extension'' w))"
  have R: "Reconcile x a ex w =
     (case Deploy x ?d (ex_Namespace ex) ?w2 of
        (Some err, w3) \<Rightarrow> (Some (Errorf ''failed to deploy traefik: %w'' err), w3)
      | (None, w3) \<Rightarrow> (None, logger_Info ''successfully reconciled traefik extension'' w3))"
    by (rule Reconcile_decode_failed [OF f c h p r e])
  obtain resources where res: "fst (generateResources x ?d w) = Inr resources"
    using ok by (cases "fst (generateResources x ?d w)") simp_all
  have nfw: "\<And>v k. fault w v k = None"
    using nf by blast
  have nf2: "\<And>v k. fault ?w2 v k = None"
    by (simp add: nfw)
  have res2: "fst (generateResources x ?d ?w2) = Inr resources"
    using res generateResources_fst_indep [of x ?d ?w2 w] by simp
  note dep = Deploy_applies [of ?w2 x ?d resources "ex_Namespace ex", OF nf2 res2]
  obtain w3 where D: "Deploy x ?d (ex_Namespace ex) ?w2 = (None, w3)"
    using dep(1) by (cases "Deploy x ?d (ex_Namespace ex) ?w2") simp
  have l3: "logged w3 = logged ?w2 @ [(LevelInfo, ''deploying traefik to shoot cluster''),
                                      (LevelInfo, ''successfully deployed traefik'')]"
    using dep(6) by (simp add: D)
  show "fst (Reconcile x a ex w) = None"
    by (simp add: R D)
  show "logged (snd (Reconcile x a ex w)) =
               logged w @ [(LevelInfo, ''reconciling traefik extension''),
                           (LevelError, ''failed to decode provider config, using defaults''),
                           (LevelInfo, ''deploying traefik to shoot cluster''),
                           (LevelInfo, ''successfully deployed traefik''),
                           (LevelInfo, ''successfully reconciled traefik extension'')]"
    by (simp add: R D l3)
qed

lemma example_decode_failure:
  "fault (seed_world \<lparr>Purpose = Some ''evaluation'', HibernationEnabled = None\<rparr>) VGet
     (''Cluster'', '''', ex_Namespace (example_extension (Some ''{''))) = None"
  "clusters (seed_world \<lparr>Purpose = Some ''evaluation'', HibernationEnabled = None\<rparr>)
     (ex_Namespace (example_extension (Some ''{'')))
   = Some \<lparr>cluster_Shoot = \<lparr>Purpose = Some ''evaluation'', HibernationEnabled = None\<rparr>\<rparr>"
  "\<not> HibernationIsEnabled
       (cluster_Shoot \<lparr>cluster_Shoot = \<lparr>Purpose = Some ''evaluation'', HibernationEnabled = None\<rparr>\<rparr>)"
  "Purpose (cluster_Shoot \<lparr>cluster_Shoot = \<lparr>Purpose = Some ''evaluation'', HibernationEnabled = None\<rparr>\<rparr>)
   = Some ShootPurposeEvaluation"
  "ProviderConfig (example_extension (Some ''{'')) = Some ''{''"
  "DecodeInto (decoder example_actuator) ''{'' = Inl (DecodeError ''{'')"
  "\<forall>v k. fault (seed_world \<lparr>Purpose = Some ''evaluation'', HibernationEnabled = None\<rparr>) v k = None"
  "\<not> isl (fst (generateResources example_externals
            (NewDeployer DefaultConfig (actuator_imageVector example_actuator))
            (seed_world \<lparr>Purpose = Some ''evaluation'', HibernationEnabled = None\<rparr>)))"
  "logged (seed_world \<lparr>Purpose = Some ''evaluation'', HibernationEnabled = None\<rparr>) = []"
          apply (simp_all add: seed_world_def empty_world_def example_extension_def
          HibernationIsEnabled_def ShootPurposeEvaluation_def example_actuator_def
          example_decoder_def DecodeInto_def)
  apply (rule generateResources_example_builds [unfolded example_actuator_def seed_world_def empty_world_def])
  apply (simp add: NewDeployer_def example_imageVector_def)
  done

text \<open>
  The claim C7 has the decoding failure reported as a warning. The logger has no such
  call: the failure is written by \<open>logger.Error\<close>, and no line of the reconciliation
  is a warning.
\<close>

theorem decode_failure_counterexample:
  "DecodeInto (decoder example_actuator) ''{'' = Inl (DecodeError ''{'')
   \<and> map fst (logged (snd (Reconcile example_externals example_actuator
         (example_extension (Some ''{''))
         (seed_world \<lparr>Purpose = Some ''evaluation'', HibernationEnabled = None\<rparr>)))) =
       [LevelInfo, LevelError, LevelInfo, LevelInfo, LevelInfo]
   \<and> LevelWarning \<notin> set (map fst (logged (snd (Reconcile example_externals example_actuator
         (example_extension (Some ''{''))
         (seed_world \<lparr>Purpose = Some ''evaluation'', HibernationEnabled = None\<rparr>)))))"
  using example_decode_failure(6)
    Reconcile_decode_failed_applies(2) [OF example_decode_failure(1-8)]
  by (simp add: example_decode_failure(9))

text \<open>
  C7, as amended. When the provider configuration of an evaluation shoot that is not
  hibernated fails to decode, \<open>Reconcile\<close> does not return that failure: it writes it
  to the log by \<open>logger.Error\<close> and goes on to \<open>Deploy\<close> with the default
  configuration, unchanged in every field; the result of \<open>Reconcile\<close> is that of this
  \<open>Deploy\<close>. With a store that answers by its contract and a bundle that can be built
  from the defaults, \<open>Reconcile\<close> succeeds.
\<close>

theorem decode_failure_falls_back_to_defaults:
  assumes f: "fault w VGet (''Cluster'', '''', ex_Namespace ex) = None"
      and c: "clusters w (ex_Namespace ex) = Some cluster"
      and h: "\<not> HibernationIsEnabled (cluster_Shoot cluster)"
      and p: "Purpose (cluster_Shoot cluster) = Some ShootPurposeEvaluation"
      and r: "ProviderConfig ex = Some raw"
      and e: "DecodeInto (decoder a) raw = Inl err"
  shows "Reconcile x a ex w =
     (case Deploy x (NewDeployer DefaultConfig (actuator_imageVector a)) (ex_Namespace ex)
             (logger_Error ''failed to decode provider config, using defaults''
                (request VGet (''Cluster'', '''', ex_Namespace ex)
                   (logger_Info ''reconciling traefik extension'' w))) of
        (Some err, w3) \<Rightarrow> (Some (Errorf ''failed to deploy traefik: %w'' err), w3)
      | (None, w3) \<Rightarrow> (None, logger_Info ''successfully reconciled traefik extension'' w3))
   \<and> ((\<forall>v k. fault w v k = None)
        \<and> \<not> isl (fst (generateResources x
                  (NewDeployer DefaultConfig (actuator_imageVector a)) w))
       \<longrightarrow> fst (Reconcile x a ex w) = None
           \<and> logged (snd (Reconcile x a ex w)) =
               logged w @ [(LevelInfo, ''reconciling traefik extension''),
                           (LevelError, ''failed to decode provider config, using defaults''),
                           (LevelInfo, ''deploying traefik to shoot cluster''),
                           (LevelInfo, ''successfully deployed traefik''),
                           (LevelInfo, ''successfully reconciled traefik extension'')])"
  using Reconcile_decode_failed [OF f c h p r e]
    Reconcile_decode_failed_applies [OF f c h p r e]
  by blast

theorem decode_failure_falls_back_to_defaults_witness:
  "DecodeInto (decoder example_actuator) ''{'' = Inl (DecodeError ''{'')
   \<and> fst (Reconcile example_externals example_actuator (example_extension (Some ''{''))
            (seed_world \<lparr>Purpose = Some ''evaluation'', HibernationEnabled = None\<rparr>)) = None
   \<and> logged (snd (Reconcile example_externals example_actuator (example_extension (Some ''{''))
            (seed_world \<lparr>Purpose = Some ''evaluation'', HibernationEnabled = None\<rparr>))) =
       [(LevelInfo, ''reconciling traefik extension''),
        (LevelError, ''failed to decode provider config, using defaults''),
        (LevelInfo, ''deploying traefik to shoot cluster''),
        (LevelInfo, ''successfully deployed traefik''),
        (LevelInfo, ''successfully reconciled traefik extension'')]"
proof -
  note applied = decode_failure_falls_back_to_defaults
      [OF example_decode_failure(1-6), of example_externals, THEN conjunct2, rule_format,
       OF conjI [OF example_decode_failure(7,8)]]
  show ?thesis
    using example_decode_failure(6) applied by (simp add: example_decode_failure(9))
qed

end
